theory Spec2Isabelle
  imports Main
begin

section \<open>Positions, ranges and editor events\<close>

text \<open>
  The data exchanged with the editor, as the TypeScript interfaces have it.
  JavaScript numbers that hold line numbers, columns, offsets and versions are
  modelled as unbounded integers, strings as character lists.
\<close>

record IPosition =
  lineNumber :: int
  column :: int

record IRange =
  startLineNumber :: int
  startColumn :: int
  endLineNumber :: int
  endColumn :: int

record ISelection =
  selectionStartLineNumber :: int
  selectionStartColumn :: int
  positionLineNumber :: int
  positionColumn :: int

text \<open>
  A change of the document text and the event that carries it. The source's field
  names \<^verbatim>\<open>range\<close> and \<^verbatim>\<open>text\<close> are written \<open>change_range\<close> and \<open>change_text\<close>.
\<close>

record IModelContentChange =
  change_range :: IRange
  rangeOffset :: int
  rangeLength :: int
  change_text :: string

record IModelContentChangedEvent =
  changes :: "IModelContentChange list"
  versionId :: int

record ICursorPositionChangedEvent =
  event_position :: IPosition

record ICursorSelectionChangedEvent =
  event_selection :: ISelection

text \<open>An event of the editor's own cursor, of one of the two kinds.\<close>

datatype cursorEvent =
  PositionChanged ICursorPositionChangedEvent
| SelectionChanged ICursorSelectionChangedEvent

text \<open>
  \<^verbatim>\<open>IMessageData\<close> is a message type with its data. The three types of
  \<^verbatim>\<open>MessageDataType\<close> carry the event of their kind; any other type string is
  \<open>OtherMessage\<close>. An \<^verbatim>\<open>IMessage\<close> holds the compressed JSON text of an
  \<^verbatim>\<open>IMessageData\<close>; the model holds the message data that the bytes encode.
\<close>

datatype IMessageData =
  CodeSnippet IModelContentChangedEvent
| CursorPosition ICursorPositionChangedEvent
| CursorSelection ICursorSelectionChangedEvent
| OtherMessage string

record IMessage =
  msg_uid :: "string option"
  message :: IMessageData
  timestamp :: "int option"

record IEditorUser =
  uid :: string
  color :: string
  label :: string

text \<open>
  The constructor of the editor library's \<^verbatim>\<open>Range\<close> (and of \<^verbatim>\<open>Selection\<close>, which
  extends it) exchanges the two ends when the first lies after the second.
\<close>

definition Range :: "int \<Rightarrow> int \<Rightarrow> int \<Rightarrow> int \<Rightarrow> IRange" where
  "Range sl sc el ec =
     (if sl > el \<or> (sl = el \<and> sc > ec)
      then \<lparr>startLineNumber = el, startColumn = ec, endLineNumber = sl, endColumn = sc\<rparr>
      else \<lparr>startLineNumber = sl, startColumn = sc, endLineNumber = el, endColumn = ec\<rparr>)"

definition getStartPosition :: "IRange \<Rightarrow> IPosition" where
  "getStartPosition r = \<lparr>lineNumber = startLineNumber r, column = startColumn r\<rparr>"

definition getEndPosition :: "IRange \<Rightarrow> IPosition" where
  "getEndPosition r = \<lparr>lineNumber = endLineNumber r, column = endColumn r\<rparr>"

section \<open>RemoteSelection: ordering of two positions\<close>

text \<open>
  \<^verbatim>\<open>swapIfNeeded(start, end)\<close> of selection.ts: the pair is returned as given when
  \<open>start\<close> is on an earlier line, or on the same line at a column that is not
  greater; otherwise the two are exchanged.
\<close>

definition swapIfNeeded :: "IPosition \<Rightarrow> IPosition \<Rightarrow> IPosition \<times> IPosition" where
  "swapIfNeeded start end' =
     (if lineNumber start < lineNumber end'
         \<or> (lineNumber start = lineNumber end' \<and> column start \<le> column end')
      then (start, end')
      else (end', start))"

text \<open>The order the specification describes: by line first, then by column.\<close>

definition before_or_equal :: "IPosition \<Rightarrow> IPosition \<Rightarrow> bool" where
  "before_or_equal a b =
     (lineNumber a < lineNumber b \<or> (lineNumber a = lineNumber b \<and> column a \<le> column b))"


section \<open>The objects of one editor page\<close>

text \<open>
  A cursor widget, as the fields of class \<^verbatim>\<open>RemoteCursorWidget\<close>. The DOM nodes are
  held by the style properties the class writes. The closure
  \<^verbatim>\<open>() => this.removeCursor(user.uid)\<close> that the manager passes as \<^verbatim>\<open>onDisposed\<close> is held
  by the user id it captured. \<open>cw_onDisposedCalls\<close> is not a field of the class: it
  counts the calls of \<^verbatim>\<open>onDisposed\<close>.
\<close>

record tooltipNode =
  innerHTML :: string
  tooltip_background :: string
  opacity :: string

record RemoteCursorWidget =
  cw_id :: string
  cw_onDisposed :: string
  cw_background :: string
  cw_display :: string
  cw_tooltipNode :: "tooltipNode option"
  cw_tooltipDuration :: int
  cw_scrollListener :: bool
  cw_position :: "IPosition option"
  cw_hideTimer :: "nat option"
  cw_disposed :: bool
  cw_onDisposedCalls :: nat

text \<open>
  A decoration handed to \<^verbatim>\<open>deltaDecorations\<close>, and a remote selection, as the fields
  of class \<^verbatim>\<open>RemoteSelection\<close>. The identifiers that \<^verbatim>\<open>deltaDecorations\<close> returns are
  held by the decorations they denote; the style element by its CSS text and by
  whether it still has a parent.
\<close>

record IModelDeltaDecoration =
  deco_range :: IRange
  deco_className :: string
  hoverMessage :: "string option"

record RemoteSelection =
  sel_id :: string
  sel_label :: string
  sel_onDisposed :: string
  sel_className :: string
  sel_styleElement :: string
  sel_styleAttached :: bool
  startPosition :: "IPosition option"
  endPosition :: "IPosition option"
  decorations :: "IModelDeltaDecoration list"
  sel_disposed :: bool
  sel_onDisposedCalls :: nat

text \<open>
  Timers of the browser: \<^verbatim>\<open>setTimeout\<close> returns a handle, and the two callbacks the
  cursor widget schedules are the deferred \<^verbatim>\<open>showTooltip\<close> and the tooltip's auto-hide.
\<close>

datatype timer_callback = ShowTooltip nat | HideTooltip nat

record timer =
  timer_id :: nat
  timer_callback :: timer_callback
  timer_delay :: int

text \<open>
  The text model of the editor: the document, of a type \<open>'d\<close> the editor chooses, and
  its version.
\<close>

record 'd ITextModel =
  content :: 'd
  getVersionId :: int

text \<open>
  The state of one page: the editor, the timers, one cursor manager with the widgets
  it made, one selection manager with its selections, and one content manager.

  The editor is the external collaborator. Its behaviour is a parameter, held in five
  functions that are never changed: \<open>applyEdit\<close>, \<open>getPositionAt\<close> and \<open>getOffsetAt\<close> are
  the text buffer; \<open>dropsEdit\<close> says which edits the editor drops because they change
  nothing; \<open>cursorEvents\<close> gives the events of its own cursor that the editor raises
  for an edit it executes. The document type \<open>'d\<close> holds whatever the editor needs for
  them (the text, and where its own cursor is).
  Objects live in two stores (\<open>cursorHeap\<close>, \<open>selectionHeap\<close>); a reference is an index
  into its store, so that two references are the same object exactly when they are
  equal. The registries are the two \<^verbatim>\<open>Map<string, ...>\<close> fields of the managers.

  Of the content manager, \<open>channel\<close>, \<open>cursorManager\<close> and \<open>selectionManager\<close> say
  whether the field is defined, \<open>contentSubscription\<close> whether the listener of
  \<^verbatim>\<open>onDidChangeModelContent\<close> is registered and not disposed, and \<open>sent\<close> lists the
  messages handed to \<^verbatim>\<open>channel.sendMessage\<close>, oldest first.
\<close>

record 'd world =
  getModel :: "'d ITextModel option"
  applyEdit :: "'d \<Rightarrow> IRange \<Rightarrow> string \<Rightarrow> 'd"
  getPositionAt :: "'d \<Rightarrow> int \<Rightarrow> IPosition"
  getOffsetAt :: "'d \<Rightarrow> IPosition \<Rightarrow> int"
  dropsEdit :: "'d \<Rightarrow> IRange \<Rightarrow> string \<Rightarrow> bool"
  cursorEvents :: "'d \<Rightarrow> IRange \<Rightarrow> string \<Rightarrow> cursorEvent list"
  contentWidgets :: "nat list"
  scrollListeners :: "nat list"
  timers :: "timer list"
  nextTimer :: nat
  cm_tooltips :: bool
  cm_tooltipDuration :: int
  cursorWidgets :: "string \<rightharpoonup> nat"
  cursorHeap :: "RemoteCursorWidget list"
  remoteSelections :: "string \<rightharpoonup> nat"
  selectionHeap :: "RemoteSelection list"
  channel :: bool
  cursorManager :: bool
  selectionManager :: bool
  contentSubscription :: bool
  sent :: "IMessageData list"

section \<open>The content manager: local events to messages\<close>

text \<open>
  \<^verbatim>\<open>sendMessage\<close> returns at once without a channel; otherwise the message goes to
  the channel.
\<close>

definition sendMessage :: "IMessageData \<Rightarrow> 'd world \<Rightarrow> 'd world" where
  "sendMessage m s = (if \<not> channel s then s else s\<lparr>sent := sent s @ [m]\<rparr>)"

definition editorCursorPositionChangeListener ::
    "ICursorPositionChangedEvent \<Rightarrow> 'd world \<Rightarrow> 'd world" where
  "editorCursorPositionChangeListener event s = sendMessage (CursorPosition event) s"

definition editorCursorSelectionChangedListener ::
    "ICursorSelectionChangedEvent \<Rightarrow> 'd world \<Rightarrow> 'd world" where
  "editorCursorSelectionChangedListener event s = sendMessage (CursorSelection event) s"

text \<open>
  \<^verbatim>\<open>sendCodeSnippet\<close>: nothing without a model, nothing for an event whose version is
  less than the model's, the message otherwise.
\<close>

definition sendCodeSnippet :: "IModelContentChangedEvent \<Rightarrow> 'd world \<Rightarrow> 'd world" where
  "sendCodeSnippet event s =
     (case getModel s of
        None \<Rightarrow> s
      | Some model \<Rightarrow>
          if versionId event < getVersionId model then s
          else sendMessage (CodeSnippet event) s)"

section \<open>The editor\<close>

text \<open>
  \<^verbatim>\<open>editor.executeEdits(source, [{range, text, forceMoveMarkers}])\<close> with one edit, as
  the content manager calls it. The editor is not part of the repository; this is
  its contract as the program relies on it. Without a model the edit does nothing, and
  an edit that the editor drops (it changes nothing) does nothing either. Otherwise
  the edit changes the document and the version of the model grows by one; the editor
  raises one content-change event that carries the new version and the change, to the
  listener registered with \<^verbatim>\<open>onDidChangeModelContent\<close>, which calls
  \<^verbatim>\<open>sendCodeSnippet\<close>; and it then raises the events of its own cursor, to the
  listeners registered with \<^verbatim>\<open>onDidChangeCursorPosition\<close> and
  \<^verbatim>\<open>onDidChangeCursorSelection\<close>. The content manager registers these two only when
  it has a channel, and never disposes them.
\<close>

definition raiseCursorEvent :: "'d world \<Rightarrow> cursorEvent \<Rightarrow> 'd world" where
  "raiseCursorEvent s ev =
     (if \<not> channel s then s
      else case ev of
             PositionChanged e \<Rightarrow> editorCursorPositionChangeListener e s
           | SelectionChanged e \<Rightarrow> editorCursorSelectionChangedListener e s)"

definition contentChange :: "'d world \<Rightarrow> 'd \<Rightarrow> IRange \<Rightarrow> string \<Rightarrow> IModelContentChange" where
  "contentChange s d rng txt =
     \<lparr>change_range = rng,
      rangeOffset = getOffsetAt s d (getStartPosition rng),
      rangeLength = getOffsetAt s d (getEndPosition rng) - getOffsetAt s d (getStartPosition rng),
      change_text = txt\<rparr>"

definition executeEdits :: "string \<Rightarrow> IRange \<Rightarrow> string \<Rightarrow> 'd world \<Rightarrow> 'd world" where
  "executeEdits source rng txt s =
     (case getModel s of
        None \<Rightarrow> s
      | Some model \<Rightarrow>
          if dropsEdit s (content model) rng txt then s
          else let model' = \<lparr>content = applyEdit s (content model) rng txt,
                             getVersionId = getVersionId model + 1\<rparr>;
                   event = \<lparr>changes = [contentChange s (content model) rng txt],
                            versionId = getVersionId model'\<rparr>;
                   s1 = s\<lparr>getModel := Some model'\<rparr>;
                   s2 = (if contentSubscription s1 then sendCodeSnippet event s1 else s1)
               in foldl raiseCursorEvent s2 (cursorEvents s (content model) rng txt))"

text \<open>
  Content widgets and the scroll listener. \<^verbatim>\<open>layoutContentWidget\<close> only redraws.
\<close>

definition addContentWidget :: "nat \<Rightarrow> 'd world \<Rightarrow> 'd world" where
  "addContentWidget r s = s\<lparr>contentWidgets := contentWidgets s @ [r]\<rparr>"

definition removeContentWidget :: "nat \<Rightarrow> 'd world \<Rightarrow> 'd world" where
  "removeContentWidget r s = s\<lparr>contentWidgets := removeAll r (contentWidgets s)\<rparr>"

definition layoutContentWidget :: "nat \<Rightarrow> 'd world \<Rightarrow> 'd world" where
  "layoutContentWidget r s = s"

definition onDidScrollChange :: "nat \<Rightarrow> 'd world \<Rightarrow> 'd world" where
  "onDidScrollChange r s = s\<lparr>scrollListeners := scrollListeners s @ [r]\<rparr>"

definition scrollListener_dispose :: "nat \<Rightarrow> 'd world \<Rightarrow> 'd world" where
  "scrollListener_dispose r s = s\<lparr>scrollListeners := removeAll r (scrollListeners s)\<rparr>"

section \<open>Timers\<close>

definition setTimeout :: "timer_callback \<Rightarrow> int \<Rightarrow> 'd world \<Rightarrow> nat \<times> 'd world" where
  "setTimeout cb delay s =
     (nextTimer s,
      s\<lparr>timers := timers s @ [\<lparr>timer_id = nextTimer s, timer_callback = cb, timer_delay = delay\<rparr>],
        nextTimer := Suc (nextTimer s)\<rparr>)"

definition clearTimeout :: "nat \<Rightarrow> 'd world \<Rightarrow> 'd world" where
  "clearTimeout t s = s\<lparr>timers := filter (\<lambda>x. timer_id x \<noteq> t) (timers s)\<rparr>"

section \<open>RemoteCursorWidget\<close>

text \<open>Reading and writing the widget behind a reference.\<close>

definition cw_update ::
    "nat \<Rightarrow> (RemoteCursorWidget \<Rightarrow> RemoteCursorWidget) \<Rightarrow> 'd world \<Rightarrow> 'd world" where
  "cw_update r f s = s\<lparr>cursorHeap := (cursorHeap s)[r := f (cursorHeap s ! r)]\<rparr>"

text \<open>
  The constructor: a new object at the end of the store, added to the editor's
  content widgets; with tooltips enabled it has a tooltip node and a scroll listener.
\<close>

definition new_RemoteCursorWidget ::
    "string \<Rightarrow> string \<Rightarrow> string \<Rightarrow> bool \<Rightarrow> int \<Rightarrow> string \<Rightarrow> 'd world \<Rightarrow> nat \<times> 'd world" where
  "new_RemoteCursorWidget widgetId color' label' tooltipEnabled tooltipDuration onDisposed s =
     (let r = length (cursorHeap s);
          w = \<lparr>cw_id = ''monaco-remote-cursor-'' @ widgetId,
               cw_onDisposed = onDisposed,
               cw_background = color',
               cw_display = [],
               cw_tooltipNode =
                 (if tooltipEnabled
                  then Some \<lparr>innerHTML = label', tooltip_background = color', opacity = []\<rparr>
                  else None),
               cw_tooltipDuration = tooltipDuration,
               cw_scrollListener = tooltipEnabled,
               cw_position = None,
               cw_hideTimer = None,
               cw_disposed = False,
               cw_onDisposedCalls = 0\<rparr>;
          s1 = s\<lparr>cursorHeap := cursorHeap s @ [w]\<rparr>;
          s2 = (if tooltipEnabled then onDidScrollChange r s1 else s1)
      in (r, addContentWidget r s2))"

definition cw_hide :: "nat \<Rightarrow> 'd world \<Rightarrow> 'd world" where
  "cw_hide r s = cw_update r (\<lambda>w. w\<lparr>cw_display := ''none''\<rparr>) s"

definition cw_show :: "nat \<Rightarrow> 'd world \<Rightarrow> 'd world" where
  "cw_show r s = cw_update r (\<lambda>w. w\<lparr>cw_display := ''inherit''\<rparr>) s"

definition cw_updatePosition :: "IPosition \<Rightarrow> nat \<Rightarrow> 'd world \<Rightarrow> 'd world" where
  "cw_updatePosition pos r s =
     layoutContentWidget r (cw_update r (\<lambda>w. w\<lparr>cw_position := Some pos\<rparr>) s)"

text \<open>
  \<^verbatim>\<open>setPosition\<close> defers \<^verbatim>\<open>showTooltip\<close> with a timer of delay 0 when the widget has
  a tooltip node.
\<close>

definition cw_setPosition :: "IPosition \<Rightarrow> nat \<Rightarrow> 'd world \<Rightarrow> 'd world" where
  "cw_setPosition pos r s =
     (let s1 = cw_updatePosition pos r s
      in if cw_tooltipNode (cursorHeap s1 ! r) \<noteq> None
         then snd (setTimeout (ShowTooltip r) 0 s1)
         else s1)"

definition cw_setOffset :: "int \<Rightarrow> nat \<Rightarrow> 'd world \<Rightarrow> 'd world" where
  "cw_setOffset offset r s =
     (case getModel s of
        None \<Rightarrow> s
      | Some model \<Rightarrow> cw_setPosition (getPositionAt s (content model) offset) r s)"

definition cw_setPositionWithModelContentChange ::
    "IModelContentChange \<Rightarrow> nat \<Rightarrow> 'd world \<Rightarrow> 'd world" where
  "cw_setPositionWithModelContentChange change r s =
     (case getModel s of
        None \<Rightarrow> s
      | Some model \<Rightarrow>
          cw_updatePosition
            (getPositionAt s (content model) (rangeOffset change + int (length (change_text change))))
            r s)"

text \<open>
  \<^verbatim>\<open>updateTooltipPosition\<close> writes only the offsets \<^verbatim>\<open>top\<close> and \<^verbatim>\<open>left\<close> of the tooltip
  node, from layout measurements of the browser; the model holds neither.
\<close>

definition cw_updateTooltipPosition :: "nat \<Rightarrow> 'd world \<Rightarrow> 'd world" where
  "cw_updateTooltipPosition r s = s"

definition cw_setTooltipVisible :: "bool \<Rightarrow> nat \<Rightarrow> 'd world \<Rightarrow> 'd world" where
  "cw_setTooltipVisible visible r s =
     (case cw_tooltipNode (cursorHeap s ! r) of
        None \<Rightarrow> s
      | Some node \<Rightarrow>
          cw_update r
            (\<lambda>w. w\<lparr>cw_tooltipNode := Some (node\<lparr>opacity := (if visible then ''1.0'' else ''0'')\<rparr>)\<rparr>) s)"

text \<open>
  \<^verbatim>\<open>showTooltip\<close>: a pending hide timer is cleared, otherwise the tooltip is made
  visible; then a new hide timer is set and its handle stored.
\<close>

definition cw_showTooltip :: "nat \<Rightarrow> 'd world \<Rightarrow> 'd world" where
  "cw_showTooltip r s =
     (let s1 = cw_updateTooltipPosition r s;
          s2 = (case cw_hideTimer (cursorHeap s1 ! r) of
                  Some t \<Rightarrow> clearTimeout t s1
                | None \<Rightarrow> cw_setTooltipVisible True r s1);
          (t', s3) = setTimeout (HideTooltip r) (cw_tooltipDuration (cursorHeap s2 ! r)) s2
      in cw_update r (\<lambda>w. w\<lparr>cw_hideTimer := Some t'\<rparr>) s3)"

text \<open>The callback of the hide timer.\<close>

definition cw_hideTimerCallback :: "nat \<Rightarrow> 'd world \<Rightarrow> 'd world" where
  "cw_hideTimerCallback r s =
     cw_update r (\<lambda>w. w\<lparr>cw_hideTimer := None\<rparr>) (cw_setTooltipVisible False r s)"

text \<open>
  \<^verbatim>\<open>isDisposed\<close>. A reference of the program always designates an object; for an
  index beyond the store the model answers \<open>True\<close>, so that nothing is done with it.
\<close>

definition cw_isDisposed :: "nat \<Rightarrow> 'd world \<Rightarrow> bool" where
  "cw_isDisposed r s = (length (cursorHeap s) \<le> r \<or> cw_disposed (cursorHeap s ! r))"

definition cw_setDisposed :: "nat \<Rightarrow> 'd world \<Rightarrow> 'd world" where
  "cw_setDisposed r s = cw_update r (\<lambda>w. w\<lparr>cw_disposed := True\<rparr>) s"

definition cw_countOnDisposed :: "nat \<Rightarrow> 'd world \<Rightarrow> 'd world" where
  "cw_countOnDisposed r s =
     cw_update r (\<lambda>w. w\<lparr>cw_onDisposedCalls := Suc (cw_onDisposedCalls w)\<rparr>) s"

text \<open>The number of widgets not yet disposed: it bounds the nesting of the calls below.\<close>

definition cw_live :: "'d world \<Rightarrow> nat" where
  "cw_live s = length (filter (\<lambda>w. \<not> cw_disposed w) (cursorHeap s))"

section \<open>RemoteCursorManager: removal, and the disposal of a widget\<close>

text \<open>
  \<^verbatim>\<open>removeCursor\<close> of the manager and \<^verbatim>\<open>dispose\<close> of the widget call each other:
  \<^verbatim>\<open>removeCursor\<close> disposes the registered widget unless it is disposed already, and
  deletes the registry entry; \<^verbatim>\<open>dispose\<close> returns at once on a disposed widget,
  otherwise it leaves the editor's content widgets, disposes its scroll listener, sets
  \<^verbatim>\<open>disposed\<close> and calls \<^verbatim>\<open>onDisposed\<close>, which is \<^verbatim>\<open>removeCursor\<close> of the user id the
  widget was made for. Every nested call has one more widget disposed, which is why the
  calls end.
\<close>

function removeCursor :: "string \<Rightarrow> 'd world \<Rightarrow> 'd world"
  and cw_dispose :: "nat \<Rightarrow> 'd world \<Rightarrow> 'd world" where
  "removeCursor ident s =
     (let s' = (case cursorWidgets s ident of
                  None \<Rightarrow> s
                | Some r \<Rightarrow> if \<not> cw_isDisposed r s then cw_dispose r s else s)
      in s'\<lparr>cursorWidgets := (cursorWidgets s')(ident := None)\<rparr>)"
| "cw_dispose r s =
     (if cw_isDisposed r s then s
      else let s1 = removeContentWidget r s;
               s2 = (if cw_scrollListener (cursorHeap s1 ! r) then scrollListener_dispose r s1 else s1);
               s3 = cw_setDisposed r s2
           in removeCursor (cw_onDisposed (cursorHeap s3 ! r)) (cw_countOnDisposed r s3))"
  by pat_completeness auto
termination
proof (relation "measures [\<lambda>x. case x of Inl (i, s) \<Rightarrow> cw_live s | Inr (r, s) \<Rightarrow> cw_live s,
                           \<lambda>x. case x of Inl (i, s) \<Rightarrow> Suc 0 | Inr (r, s) \<Rightarrow> 0]", goal_cases)
  case 1
  show ?case by simp
next
  case 2
  show ?case by simp
next
  case (3 r s s1 s2 s3)
  have less: "length (filter P (xs[i := y])) < length (filter P xs)"
    if "i < length xs" "P (xs ! i)" "\<not> P y" for P :: "RemoteCursorWidget \<Rightarrow> bool" and xs i y
    using that
  proof (induction xs arbitrary: i)
    case Nil
    then show ?case by simp
  next
    case (Cons x xs)
    show ?case
    proof (cases i)
      case 0
      with Cons.prems show ?thesis by (simp add: le_imp_less_Suc)
    next
      case (Suc k)
      with Cons show ?thesis by simp
    qed
  qed
  have "cw_live (cw_countOnDisposed r s3) < cw_live s"
    using 3
    by (simp add: cw_isDisposed_def cw_live_def cw_countOnDisposed_def cw_setDisposed_def
        cw_update_def scrollListener_dispose_def removeContentWidget_def less)
  then show ?case by simp
qed

declare removeCursor.simps [simp del]
declare cw_dispose.simps [simp del]

text \<open>
  \<^verbatim>\<open>addCursor\<close>: the registered widget when there is one; otherwise a new widget, made
  with the manager's options and registered under the user id.
\<close>

definition addCursor :: "IEditorUser \<Rightarrow> 'd world \<Rightarrow> nat \<times> 'd world" where
  "addCursor user s =
     (case cursorWidgets s (uid user) of
        Some cursorWidget \<Rightarrow> (cursorWidget, s)
      | None \<Rightarrow>
          let (cursorWidget, s1) =
                new_RemoteCursorWidget (uid user) (color user) (label user)
                  (cm_tooltips s) (cm_tooltipDuration s * 1000) (uid user) s
          in (cursorWidget, s1\<lparr>cursorWidgets := (cursorWidgets s1)(uid user \<mapsto> cursorWidget)\<rparr>))"

definition setCursorPosition :: "string \<Rightarrow> IPosition \<Rightarrow> 'd world \<Rightarrow> 'd world" where
  "setCursorPosition ident pos s =
     (case cursorWidgets s ident of None \<Rightarrow> s | Some r \<Rightarrow> cw_setPosition pos r s)"

definition setCursorOffset :: "string \<Rightarrow> int \<Rightarrow> 'd world \<Rightarrow> 'd world" where
  "setCursorOffset ident offset s =
     (case cursorWidgets s ident of None \<Rightarrow> s | Some r \<Rightarrow> cw_setOffset offset r s)"

definition showCursor :: "string \<Rightarrow> 'd world \<Rightarrow> 'd world" where
  "showCursor ident s = (case cursorWidgets s ident of None \<Rightarrow> s | Some r \<Rightarrow> cw_show r s)"

definition hideCursor :: "string \<Rightarrow> 'd world \<Rightarrow> 'd world" where
  "hideCursor ident s = (case cursorWidgets s ident of None \<Rightarrow> s | Some r \<Rightarrow> cw_hide r s)"

section \<open>RemoteSelection\<close>

definition sel_update ::
    "nat \<Rightarrow> (RemoteSelection \<Rightarrow> RemoteSelection) \<Rightarrow> 'd world \<Rightarrow> 'd world" where
  "sel_update r f s = s\<lparr>selectionHeap := (selectionHeap s)[r := f (selectionHeap s ! r)]\<rparr>"

text \<open>
  \<^verbatim>\<open>addDynamicStyleElement\<close> builds the CSS rule and appends the style element to the
  document head. The constructor stores the options and the class names.
\<close>

definition addDynamicStyleElement :: "string \<Rightarrow> string \<Rightarrow> string" where
  "addDynamicStyleElement className color' =
     ''.'' @ className @ '' { background-color: '' @ color' @ '' }''"

definition new_RemoteSelection ::
    "string \<Rightarrow> string \<Rightarrow> string \<Rightarrow> string \<Rightarrow> 'd world \<Rightarrow> nat \<times> 'd world" where
  "new_RemoteSelection ident color' label' onDisposed s =
     (let uniqueClassId = ''monaco-remote-selection-'' @ ident;
          sel = \<lparr>sel_id = ident,
                 sel_label = label',
                 sel_onDisposed = onDisposed,
                 sel_className = ''monaco-remote-selection '' @ uniqueClassId,
                 sel_styleElement = addDynamicStyleElement uniqueClassId color',
                 sel_styleAttached = True,
                 startPosition = None,
                 endPosition = None,
                 decorations = [],
                 sel_disposed = False,
                 sel_onDisposedCalls = 0\<rparr>
      in (length (selectionHeap s), s\<lparr>selectionHeap := selectionHeap s @ [sel]\<rparr>))"

text \<open>
  \<^verbatim>\<open>editor.deltaDecorations(old, new)\<close> removes the old decorations and adds the new
  ones; what it returns denotes the new ones.
\<close>

definition deltaDecorations ::
    "IModelDeltaDecoration list \<Rightarrow> IModelDeltaDecoration list \<Rightarrow> IModelDeltaDecoration list" where
  "deltaDecorations oldDecorations newDecorations = newDecorations"

text \<open>
  \<^verbatim>\<open>render\<close>: nothing unless both positions are set; otherwise one decoration over the
  range between them, with the class name, and the label as hover message.
\<close>

definition sel_render :: "nat \<Rightarrow> 'd world \<Rightarrow> 'd world" where
  "sel_render r s =
     (let sel = selectionHeap s ! r in
      case (startPosition sel, endPosition sel) of
        (Some sp, Some ep) \<Rightarrow>
          sel_update r
            (\<lambda>w. w\<lparr>decorations :=
                     deltaDecorations (decorations w)
                       [\<lparr>deco_range = Range (lineNumber sp) (column sp) (lineNumber ep) (column ep),
                         deco_className = sel_className w,
                         hoverMessage = Some (sel_label w)\<rparr>]\<rparr>) s
      | _ \<Rightarrow> s)"

definition sel_setPositions :: "IPosition \<Rightarrow> IPosition \<Rightarrow> nat \<Rightarrow> 'd world \<Rightarrow> 'd world" where
  "sel_setPositions start end' r s =
     (let ordered = swapIfNeeded start end'
      in sel_render r
           (sel_update r (\<lambda>w. w\<lparr>startPosition := Some (fst ordered),
                                  endPosition := Some (snd ordered)\<rparr>) s))"

definition sel_setOffsets :: "int \<Rightarrow> int \<Rightarrow> nat \<Rightarrow> 'd world \<Rightarrow> 'd world" where
  "sel_setOffsets start end' r s =
     (case getModel s of
        None \<Rightarrow> s
      | Some model \<Rightarrow>
          sel_setPositions (getPositionAt s (content model) start)
            (getPositionAt s (content model) end') r s)"

definition sel_show :: "nat \<Rightarrow> 'd world \<Rightarrow> 'd world" where
  "sel_show r s = sel_render r s"

definition sel_hide :: "nat \<Rightarrow> 'd world \<Rightarrow> 'd world" where
  "sel_hide r s = sel_update r (\<lambda>w. w\<lparr>decorations := deltaDecorations (decorations w) []\<rparr>) s"

definition sel_isDisposed :: "nat \<Rightarrow> 'd world \<Rightarrow> bool" where
  "sel_isDisposed r s = (length (selectionHeap s) \<le> r \<or> sel_disposed (selectionHeap s ! r))"

definition sel_removeStyleElement :: "nat \<Rightarrow> 'd world \<Rightarrow> 'd world" where
  "sel_removeStyleElement r s = sel_update r (\<lambda>w. w\<lparr>sel_styleAttached := False\<rparr>) s"

definition sel_setDisposed :: "nat \<Rightarrow> 'd world \<Rightarrow> 'd world" where
  "sel_setDisposed r s = sel_update r (\<lambda>w. w\<lparr>sel_disposed := True\<rparr>) s"

definition sel_countOnDisposed :: "nat \<Rightarrow> 'd world \<Rightarrow> 'd world" where
  "sel_countOnDisposed r s =
     sel_update r (\<lambda>w. w\<lparr>sel_onDisposedCalls := Suc (sel_onDisposedCalls w)\<rparr>) s"

definition sel_live :: "'d world \<Rightarrow> nat" where
  "sel_live s = length (filter (\<lambda>w. \<not> sel_disposed w) (selectionHeap s))"

section \<open>RemoteSelectionManager\<close>

text \<open>
  \<^verbatim>\<open>removeSelection\<close> disposes the registered selection unless it is disposed already,
  and that is all it does. \<^verbatim>\<open>dispose\<close> of a selection that is not disposed removes the
  style element from its parent, hides the decorations, sets \<^verbatim>\<open>disposed\<close> and calls
  \<^verbatim>\<open>onDisposed\<close>, which is \<^verbatim>\<open>removeSelection\<close> of the user id the selection was made for.
\<close>

function removeSelection :: "string \<Rightarrow> 'd world \<Rightarrow> 'd world"
  and sel_dispose :: "nat \<Rightarrow> 'd world \<Rightarrow> 'd world" where
  "removeSelection ident s =
     (case remoteSelections s ident of
        None \<Rightarrow> s
      | Some r \<Rightarrow> if \<not> sel_isDisposed r s then sel_dispose r s else s)"
| "sel_dispose r s =
     (if \<not> sel_isDisposed r s
      then let s1 = (if sel_styleAttached (selectionHeap s ! r) then sel_removeStyleElement r s else s);
               s2 = sel_hide r s1;
               s3 = sel_setDisposed r s2
           in removeSelection (sel_onDisposed (selectionHeap s3 ! r)) (sel_countOnDisposed r s3)
      else s)"
  by pat_completeness auto
termination
proof (relation "measures [\<lambda>x. case x of Inl (i, s) \<Rightarrow> sel_live s | Inr (r, s) \<Rightarrow> sel_live s,
                           \<lambda>x. case x of Inl (i, s) \<Rightarrow> Suc 0 | Inr (r, s) \<Rightarrow> 0]", goal_cases)
  case 1
  show ?case by simp
next
  case 2
  show ?case by simp
next
  case (3 r s s1 s2 s3)
  have less: "length (filter P (xs[i := y])) < length (filter P xs)"
    if "i < length xs" "P (xs ! i)" "\<not> P y" for P :: "RemoteSelection \<Rightarrow> bool" and xs i y
    using that
  proof (induction xs arbitrary: i)
    case Nil
    then show ?case by simp
  next
    case (Cons x xs)
    show ?case
    proof (cases i)
      case 0
      with Cons.prems show ?thesis by (simp add: le_imp_less_Suc)
    next
      case (Suc k)
      with Cons show ?thesis by simp
    qed
  qed
  have "sel_live (sel_countOnDisposed r s3) < sel_live s"
    using 3
    by (simp add: sel_isDisposed_def sel_live_def sel_countOnDisposed_def sel_setDisposed_def
        sel_update_def sel_hide_def sel_removeStyleElement_def less)
  then show ?case by simp
qed

declare removeSelection.simps [simp del]
declare sel_dispose.simps [simp del]

text \<open>
  \<^verbatim>\<open>addSelection\<close>: the registered selection when there is one; otherwise a new one.
  The option \<^verbatim>\<open>label\<close> of the new selection is given \<^verbatim>\<open>user.color\<close>.
\<close>

definition addSelection :: "IEditorUser \<Rightarrow> 'd world \<Rightarrow> nat \<times> 'd world" where
  "addSelection user s =
     (case remoteSelections s (uid user) of
        Some selection \<Rightarrow> (selection, s)
      | None \<Rightarrow>
          let (selection, s1) =
                new_RemoteSelection (uid user) (color user) (color user) (uid user) s
          in (selection, s1\<lparr>remoteSelections := (remoteSelections s1)(uid user \<mapsto> selection)\<rparr>))"

definition setSelectionOffsets :: "string \<Rightarrow> int \<Rightarrow> int \<Rightarrow> 'd world \<Rightarrow> 'd world" where
  "setSelectionOffsets ident start end' s =
     (case remoteSelections s ident of None \<Rightarrow> s | Some r \<Rightarrow> sel_setOffsets start end' r s)"

definition setSelectionPositions ::
    "string \<Rightarrow> IPosition \<Rightarrow> IPosition \<Rightarrow> 'd world \<Rightarrow> 'd world" where
  "setSelectionPositions ident start end' s =
     (case remoteSelections s ident of None \<Rightarrow> s | Some r \<Rightarrow> sel_setPositions start end' r s)"

definition showSelection :: "string \<Rightarrow> 'd world \<Rightarrow> 'd world" where
  "showSelection ident s =
     (case remoteSelections s ident of None \<Rightarrow> s | Some r \<Rightarrow> sel_show r s)"

definition hideSelection :: "string \<Rightarrow> 'd world \<Rightarrow> 'd world" where
  "hideSelection ident s =
     (case remoteSelections s ident of None \<Rightarrow> s | Some r \<Rightarrow> sel_hide r s)"

section \<open>The content manager: messages to the editor\<close>

text \<open>
  One round of the \<^verbatim>\<open>forEach\<close> of \<^verbatim>\<open>updateContent\<close>: the change's range is rebuilt, the
  edit executed with the sender's id as source, and the sender's cursor put at the
  position of offset \<^verbatim>\<open>rangeOffset + text.length\<close> in the model after the edit.
  The model is the one \<^verbatim>\<open>updateContent\<close> fetched before the loop, so the branch
  without a model is never taken.
\<close>

definition updateContent_change :: "string \<Rightarrow> 'd world \<Rightarrow> IModelContentChange \<Rightarrow> 'd world" where
  "updateContent_change u s change =
     (let rng = change_range change;
          range' = Range (startLineNumber rng) (startColumn rng) (endLineNumber rng) (endColumn rng);
          s1 = executeEdits u range' (change_text change) s
      in case getModel s1 of
           None \<Rightarrow> s1
         | Some model \<Rightarrow>
             let pos = getPositionAt s1 (content model)
                         (rangeOffset change + int (length (change_text change)))
             in if cursorManager s1 then setCursorPosition u pos s1 else s1)"

text \<open>
  \<^verbatim>\<open>updateContent\<close>: nothing without a model, nothing for an event whose version is
  not greater than the model's; otherwise the changes one after the other.
\<close>

definition updateContent :: "string \<Rightarrow> IModelContentChangedEvent \<Rightarrow> 'd world \<Rightarrow> 'd world" where
  "updateContent u event s =
     (case getModel s of
        None \<Rightarrow> s
      | Some model \<Rightarrow>
          if versionId event \<le> getVersionId model then s
          else foldl (updateContent_change u) s (changes event))"

definition updateCursorPosition ::
    "string \<Rightarrow> ICursorPositionChangedEvent \<Rightarrow> 'd world \<Rightarrow> 'd world" where
  "updateCursorPosition u event s =
     (case getModel s of
        None \<Rightarrow> s
      | Some model \<Rightarrow>
          let offset = getOffsetAt s (content model) (event_position event)
          in if cursorManager s then setCursorOffset u offset s else s)"

definition updateSelection ::
    "string \<Rightarrow> ICursorSelectionChangedEvent \<Rightarrow> 'd world \<Rightarrow> 'd world" where
  "updateSelection u event s =
     (case getModel s of
        None \<Rightarrow> s
      | Some model \<Rightarrow>
          let sel = event_selection event;
              selection = Range (selectionStartLineNumber sel) (selectionStartColumn sel)
                            (positionLineNumber sel) (positionColumn sel);
              startOffset = getOffsetAt s (content model) (getStartPosition selection);
              endOffset = getOffsetAt s (content model) (getEndPosition selection)
          in if selectionManager s then setSelectionOffsets u startOffset endOffset s else s)"

text \<open>
  \<^verbatim>\<open>receiver\<close>: a message without sender id is dropped. Otherwise the sender gets a
  cursor and a selection if it has none yet, and the message goes to the handler of
  its type; a message of another type is ignored.
\<close>

definition remoteUser :: "string \<Rightarrow> IEditorUser" where
  "remoteUser memberId = \<lparr>uid = memberId, color = ''blue'', label = ''User-'' @ memberId\<rparr>"

definition addOverlays :: "IEditorUser \<Rightarrow> 'd world \<Rightarrow> 'd world" where
  "addOverlays user s =
     (let s1 = (if cursorManager s then snd (addCursor user s) else s)
      in if selectionManager s1 then snd (addSelection user s1) else s1)"

definition receiver :: "IMessage \<Rightarrow> 'd world \<Rightarrow> 'd world" where
  "receiver msg s =
     (case msg_uid msg of
        None \<Rightarrow> s
      | Some u \<Rightarrow>
          let s1 = addOverlays (remoteUser u) s
          in case message msg of
               CodeSnippet event \<Rightarrow> updateContent u event s1
             | CursorPosition event \<Rightarrow> updateCursorPosition u event s1
             | CursorSelection event \<Rightarrow> updateSelection u event s1
             | OtherMessage t \<Rightarrow> s1)"

text \<open>The listeners of \<^verbatim>\<open>onMemberJoined\<close> and \<^verbatim>\<open>onMemberLeft\<close>, and \<^verbatim>\<open>dispose\<close>.\<close>

definition onMemberJoined :: "string \<Rightarrow> 'd world \<Rightarrow> 'd world" where
  "onMemberJoined memberId s = addOverlays (remoteUser memberId) s"

definition onMemberLeft :: "string \<Rightarrow> 'd world \<Rightarrow> 'd world" where
  "onMemberLeft memberId s =
     (let s1 = (if cursorManager s then removeCursor memberId s else s)
      in if selectionManager s1 then removeSelection memberId s1 else s1)"

definition dispose :: "'d world \<Rightarrow> 'd world" where
  "dispose s = s\<lparr>contentSubscription := False\<rparr>"

section \<open>Construction\<close>

text \<open>
  A page with an editor and nothing else: no widgets, no timers, empty registries and
  no content manager.
\<close>

definition editorPage ::
    "'d ITextModel option \<Rightarrow> ('d \<Rightarrow> IRange \<Rightarrow> string \<Rightarrow> 'd) \<Rightarrow> ('d \<Rightarrow> int \<Rightarrow> IPosition)
       \<Rightarrow> ('d \<Rightarrow> IPosition \<Rightarrow> int) \<Rightarrow> ('d \<Rightarrow> IRange \<Rightarrow> string \<Rightarrow> bool)
       \<Rightarrow> ('d \<Rightarrow> IRange \<Rightarrow> string \<Rightarrow> cursorEvent list) \<Rightarrow> 'd world" where
  "editorPage model apply positionAt offsetAt drops cursor =
     \<lparr>getModel = model, applyEdit = apply, getPositionAt = positionAt, getOffsetAt = offsetAt,
      dropsEdit = drops, cursorEvents = cursor,
      contentWidgets = [], scrollListeners = [], timers = [], nextTimer = 0,
      cm_tooltips = True, cm_tooltipDuration = 1,
      cursorWidgets = Map.empty, cursorHeap = [],
      remoteSelections = Map.empty, selectionHeap = [],
      channel = False, cursorManager = False, selectionManager = False,
      contentSubscription = False, sent = []\<rparr>"

text \<open>
  The constructors. The two that check \<^verbatim>\<open>options.editor\<close> throw when it is undefined
  or null, which is \<open>None\<close> here. Without a channel the content manager is done after
  storing its options; with one it makes the two managers (tooltips on, duration 20)
  and registers its listeners.
\<close>

datatype error = Error string

definition new_RemoteCursorManager :: "'d world option \<Rightarrow> bool \<Rightarrow> int \<Rightarrow> error + 'd world" where
  "new_RemoteCursorManager editor tooltips tooltipDuration =
     (case editor of
        None \<Rightarrow> Inl (Error ''options.editor must be defined'')
      | Some s \<Rightarrow>
          Inr (s\<lparr>cm_tooltips := tooltips, cm_tooltipDuration := tooltipDuration,
                 cursorWidgets := Map.empty\<rparr>))"

definition new_RemoteSelectionManager :: "'d world \<Rightarrow> 'd world" where
  "new_RemoteSelectionManager s = s\<lparr>remoteSelections := Map.empty\<rparr>"

definition new_EditorContentManager :: "'d world option \<Rightarrow> bool \<Rightarrow> error + 'd world" where
  "new_EditorContentManager editor withChannel =
     (case editor of
        None \<Rightarrow> Inl (Error ''options.editor must be defined'')
      | Some s \<Rightarrow>
          if \<not> withChannel
          then Inr (s\<lparr>channel := False, cursorManager := False, selectionManager := False,
                      contentSubscription := False\<rparr>)
          else (case new_RemoteCursorManager (Some (s\<lparr>channel := True\<rparr>)) True 20 of
                  Inl e \<Rightarrow> Inl e
                | Inr s1 \<Rightarrow>
                    Inr ((new_RemoteSelectionManager s1)
                          \<lparr>cursorManager := True, selectionManager := True,
                           contentSubscription := True\<rparr>)))"

text \<open>
  The page after \<^verbatim>\<open>new EditorContentManager({ editor, channel })\<close> on a defined editor.
\<close>

definition contentManagerOn :: "'d world \<Rightarrow> bool \<Rightarrow> 'd world" where
  "contentManagerOn e withChannel =
     (case new_EditorContentManager (Some e) withChannel of Inr s \<Rightarrow> s | Inl err \<Rightarrow> e)"

section \<open>A one-line text buffer\<close>

text \<open>
  The theorems below hold for every editor. To evaluate the model on concrete inputs,
  this is an editor for documents of one line: offsets and columns are clipped to the
  line, and an edit replaces the columns of its range. It drops an edit with no text
  and an empty range. Its own cursor is taken to sit behind the text of every edit it
  executes, and it reports it once as position and once as selection.
\<close>

definition line_getOffsetAt :: "string \<Rightarrow> IPosition \<Rightarrow> int" where
  "line_getOffsetAt d pos = max 0 (min (column pos - 1) (int (length d)))"

definition line_getPositionAt :: "string \<Rightarrow> int \<Rightarrow> IPosition" where
  "line_getPositionAt d offset =
     \<lparr>lineNumber = 1, column = max 0 (min offset (int (length d))) + 1\<rparr>"

definition line_applyEdit :: "string \<Rightarrow> IRange \<Rightarrow> string \<Rightarrow> string" where
  "line_applyEdit d rng txt =
     take (nat (startColumn rng - 1)) d @ txt @ drop (nat (endColumn rng - 1)) d"

definition line_dropsEdit :: "string \<Rightarrow> IRange \<Rightarrow> string \<Rightarrow> bool" where
  "line_dropsEdit d rng txt =
     (txt = [] \<and> line_getOffsetAt d (getStartPosition rng) = line_getOffsetAt d (getEndPosition rng))"

definition line_cursorEvents :: "string \<Rightarrow> IRange \<Rightarrow> string \<Rightarrow> cursorEvent list" where
  "line_cursorEvents d rng txt =
     (let p = line_getPositionAt (line_applyEdit d rng txt)
                (line_getOffsetAt d (getStartPosition rng) + int (length txt))
      in [PositionChanged \<lparr>event_position = p\<rparr>,
          SelectionChanged
            \<lparr>event_selection =
               \<lparr>selectionStartLineNumber = lineNumber p, selectionStartColumn = column p,
                positionLineNumber = lineNumber p, positionColumn = column p\<rparr>\<rparr>])"

definition linePage :: "string \<Rightarrow> int \<Rightarrow> string world" where
  "linePage d v =
     editorPage (Some \<lparr>content = d, getVersionId = v\<rparr>)
       line_applyEdit line_getPositionAt line_getOffsetAt line_dropsEdit line_cursorEvents"

section \<open>Remote edits and the content-change listener\<close>

text \<open>
  The range \<^verbatim>\<open>updateContent\<close> rebuilds from a change, the document after the edit of
  a change, and the model after the editor was asked to execute it.
\<close>

definition rebuiltRange :: "IModelContentChange \<Rightarrow> IRange" where
  "rebuiltRange c =
     Range (startLineNumber (change_range c)) (startColumn (change_range c))
       (endLineNumber (change_range c)) (endColumn (change_range c))"

definition applyChange :: "'d world \<Rightarrow> 'd \<Rightarrow> IModelContentChange \<Rightarrow> 'd" where
  "applyChange s d c = applyEdit s d (rebuiltRange c) (change_text c)"

definition dropsChange :: "'d world \<Rightarrow> 'd \<Rightarrow> IModelContentChange \<Rightarrow> bool" where
  "dropsChange s d c = dropsEdit s d (rebuiltRange c) (change_text c)"

definition modelAfterChange :: "'d world \<Rightarrow> 'd ITextModel \<Rightarrow> IModelContentChange \<Rightarrow> 'd ITextModel" where
  "modelAfterChange s model c =
     (if dropsChange s (content model) c then model
      else \<lparr>content = applyChange s (content model) c, getVersionId = getVersionId model + 1\<rparr>)"

text \<open>
  The content-change events the editor raises while the changes \<open>cs\<close> are executed one
  by one on a model: one event for each change it does not drop, with the version
  after it. And the events that the \<^verbatim>\<open>CodeSnippet\<close> messages of a list carry.
\<close>

fun echoes :: "'d world \<Rightarrow> 'd ITextModel \<Rightarrow> IModelContentChange list \<Rightarrow> IModelContentChangedEvent list" where
  "echoes s model [] = []"
| "echoes s model (c # cs) =
     (if dropsChange s (content model) c then []
      else [\<lparr>changes = [contentChange s (content model) (rebuiltRange c) (change_text c)],
             versionId = getVersionId model + 1\<rparr>])
     @ echoes s (modelAfterChange s model c) cs"

definition codeSnippets :: "IMessageData list \<Rightarrow> IModelContentChangedEvent list" where
  "codeSnippets ms = concat (map (\<lambda>m. case m of CodeSnippet e \<Rightarrow> [e] | _ \<Rightarrow> []) ms)"

section \<open>The life of a page\<close>

text \<open>
  What can happen on a page after its construction: the channel and the editor raise
  their events, the user edits or scrolls, the editor's model is replaced, a timer
  fires, and the host calls a public method of the content manager, of a manager, or
  of an overlay it got from \<^verbatim>\<open>addCursor\<close> or \<^verbatim>\<open>addSelection\<close>.
\<close>

datatype 'd event =
  MemberJoined string
| MemberLeft string
| Received IMessage
| CursorPositionChanged ICursorPositionChangedEvent
| CursorSelectionChanged ICursorSelectionChangedEvent
| ModelContentChanged IModelContentChangedEvent
| UserEdit IRange string
| ModelSet "'d ITextModel option"
| Scrolled
| TimerFired nat
| Call_dispose
| Call_addCursor IEditorUser
| Call_removeCursor string
| Call_setCursorPosition string IPosition
| Call_setCursorOffset string int
| Call_showCursor string
| Call_hideCursor string
| Call_cw_hide nat
| Call_cw_show nat
| Call_cw_setOffset nat int
| Call_cw_setPosition nat IPosition
| Call_cw_setPositionWithModelContentChange nat IModelContentChange
| Call_cw_dispose nat
| Call_addSelection IEditorUser
| Call_removeSelection string
| Call_setSelectionOffsets string int int
| Call_setSelectionPositions string IPosition IPosition
| Call_showSelection string
| Call_hideSelection string
| Call_sel_setOffsets nat int int
| Call_sel_setPositions nat IPosition IPosition
| Call_sel_show nat
| Call_sel_hide nat
| Call_sel_dispose nat

text \<open>
  A timer that fires leaves the pending timers and runs its callback.
\<close>

definition timerFired :: "nat \<Rightarrow> 'd world \<Rightarrow> 'd world" where
  "timerFired t s =
     (case find (\<lambda>x. timer_id x = t) (timers s) of
        None \<Rightarrow> s
      | Some tm \<Rightarrow>
          (case timer_callback tm of
             ShowTooltip r \<Rightarrow> cw_showTooltip r (clearTimeout t s)
           | HideTooltip r \<Rightarrow> cw_hideTimerCallback r (clearTimeout t s)))"

text \<open>
  One event. The listeners of the channel and of the cursor events exist only when
  the content manager was constructed with a channel; the content-change listener
  until it is disposed. A method of an overlay is called on an object that exists.
\<close>

fun step :: "'d world \<Rightarrow> 'd event \<Rightarrow> 'd world" where
  "step s (MemberJoined m) = (if channel s then onMemberJoined m s else s)"
| "step s (MemberLeft m) = (if channel s then onMemberLeft m s else s)"
| "step s (Received msg) = (if channel s then receiver msg s else s)"
| "step s (CursorPositionChanged e) =
     (if channel s then editorCursorPositionChangeListener e s else s)"
| "step s (CursorSelectionChanged e) =
     (if channel s then editorCursorSelectionChangedListener e s else s)"
| "step s (ModelContentChanged e) = (if contentSubscription s then sendCodeSnippet e s else s)"
| "step s (UserEdit rng txt) = executeEdits ''keyboard'' rng txt s"
| "step s (ModelSet m) = s\<lparr>getModel := m\<rparr>"
| "step s Scrolled = foldl (\<lambda>s' r. cw_updateTooltipPosition r s') s (scrollListeners s)"
| "step s (TimerFired t) = timerFired t s"
| "step s Call_dispose = dispose s"
| "step s (Call_addCursor user) = snd (addCursor user s)"
| "step s (Call_removeCursor ident) = removeCursor ident s"
| "step s (Call_setCursorPosition ident pos) = setCursorPosition ident pos s"
| "step s (Call_setCursorOffset ident offset) = setCursorOffset ident offset s"
| "step s (Call_showCursor ident) = showCursor ident s"
| "step s (Call_hideCursor ident) = hideCursor ident s"
| "step s (Call_cw_hide r) = (if r < length (cursorHeap s) then cw_hide r s else s)"
| "step s (Call_cw_show r) = (if r < length (cursorHeap s) then cw_show r s else s)"
| "step s (Call_cw_setOffset r offset) =
     (if r < length (cursorHeap s) then cw_setOffset offset r s else s)"
| "step s (Call_cw_setPosition r pos) =
     (if r < length (cursorHeap s) then cw_setPosition pos r s else s)"
| "step s (Call_cw_setPositionWithModelContentChange r change) =
     (if r < length (cursorHeap s) then cw_setPositionWithModelContentChange change r s else s)"
| "step s (Call_cw_dispose r) = (if r < length (cursorHeap s) then cw_dispose r s else s)"
| "step s (Call_addSelection user) = snd (addSelection user s)"
| "step s (Call_removeSelection ident) = removeSelection ident s"
| "step s (Call_setSelectionOffsets ident start end') = setSelectionOffsets ident start end' s"
| "step s (Call_setSelectionPositions ident start end') =
     setSelectionPositions ident start end' s"
| "step s (Call_showSelection ident) = showSelection ident s"
| "step s (Call_hideSelection ident) = hideSelection ident s"
| "step s (Call_sel_setOffsets r start end') =
     (if r < length (selectionHeap s) then sel_setOffsets start end' r s else s)"
| "step s (Call_sel_setPositions r start end') =
     (if r < length (selectionHeap s) then sel_setPositions start end' r s else s)"
| "step s (Call_sel_show r) = (if r < length (selectionHeap s) then sel_show r s else s)"
| "step s (Call_sel_hide r) = (if r < length (selectionHeap s) then sel_hide r s else s)"
| "step s (Call_sel_dispose r) = (if r < length (selectionHeap s) then sel_dispose r s else s)"

definition run :: "'d event list \<Rightarrow> 'd world \<Rightarrow> 'd world" where
  "run evs s = foldl step s evs"

text \<open>
  A page right after construction has no overlays and no timers.
\<close>

definition initial :: "'d world \<Rightarrow> bool" where
  "initial s =
     (cursorHeap s = [] \<and> selectionHeap s = [] \<and> timers s = []
      \<and> cursorWidgets s = Map.empty \<and> remoteSelections s = Map.empty)"

section \<open>What holds on every page\<close>

text \<open>
  For each overlay, whether it is disposed and how often its \<^verbatim>\<open>onDisposed\<close> was called;
  the two agree when the callback was called once on a disposed overlay and never on
  the others.
\<close>

definition cw_flags :: "'d world \<Rightarrow> (bool \<times> nat) list" where
  "cw_flags s = map (\<lambda>w. (cw_disposed w, cw_onDisposedCalls w)) (cursorHeap s)"

definition sel_flags :: "'d world \<Rightarrow> (bool \<times> nat) list" where
  "sel_flags s = map (\<lambda>w. (sel_disposed w, sel_onDisposedCalls w)) (selectionHeap s)"

definition flags_ok :: "bool \<times> nat \<Rightarrow> bool" where
  "flags_ok f = (snd f = (if fst f then 1 else 0))"

definition calls_ok :: "'d world \<Rightarrow> bool" where
  "calls_ok s = (list_all flags_ok (cw_flags s) \<and> list_all flags_ok (sel_flags s))"

text \<open>Every registered cursor widget exists.\<close>

definition registry_ok :: "'d world \<Rightarrow> bool" where
  "registry_ok s = (\<forall>u r. cursorWidgets s u = Some r \<longrightarrow> r < length (cursorHeap s))"

text \<open>
  The pending auto-hide timers of a widget, and the state of the timers: handles are
  distinct and below the next handle, every callback belongs to a widget that exists,
  and the pending auto-hide timers of a widget are exactly the handle it stores.
\<close>

fun callbackWidget :: "timer_callback \<Rightarrow> nat" where
  "callbackWidget (ShowTooltip r) = r"
| "callbackWidget (HideTooltip r) = r"

definition pendingHideIn :: "nat \<Rightarrow> timer list \<Rightarrow> nat list" where
  "pendingHideIn r ts = map timer_id (filter (\<lambda>t. timer_callback t = HideTooltip r) ts)"

definition pendingHide :: "nat \<Rightarrow> 'd world \<Rightarrow> nat list" where
  "pendingHide r s = pendingHideIn r (timers s)"

definition cw_hideTimers :: "'d world \<Rightarrow> nat option list" where
  "cw_hideTimers s = map cw_hideTimer (cursorHeap s)"

definition timers_okIn :: "timer list \<Rightarrow> nat \<Rightarrow> nat option list \<Rightarrow> bool" where
  "timers_okIn ts n hs =
     (distinct (map timer_id ts)
      \<and> (\<forall>t \<in> set ts. timer_id t < n \<and> callbackWidget (timer_callback t) < length hs)
      \<and> (\<forall>r < length hs. pendingHideIn r ts = (case hs ! r of None \<Rightarrow> [] | Some t \<Rightarrow> [t])))"

definition timers_ok :: "'d world \<Rightarrow> bool" where
  "timers_ok s = timers_okIn (timers s) (nextTimer s) (cw_hideTimers s)"

text \<open>
  The three together, and two relations between a page and a later one: nothing the
  three depend on has changed, or nothing but the timers.
\<close>

definition page_ok :: "'d world \<Rightarrow> bool" where
  "page_ok s = (registry_ok s \<and> calls_ok s \<and> timers_ok s)"

definition same_overlays :: "'d world \<Rightarrow> 'd world \<Rightarrow> bool" where
  "same_overlays s s' =
     (cursorWidgets s' = cursorWidgets s \<and> cw_flags s' = cw_flags s \<and> sel_flags s' = sel_flags s)"

definition same_timers :: "'d world \<Rightarrow> 'd world \<Rightarrow> bool" where
  "same_timers s s' =
     (timers s' = timers s \<and> nextTimer s' = nextTimer s \<and> cw_hideTimers s' = cw_hideTimers s)"

section \<open>Sequences of inbound messages\<close>

text \<open>
  Messages handled one after the other, the changes a message carries, and the
  position of a user's cursor widget.
\<close>

definition receiveAll :: "IMessage list \<Rightarrow> 'd world \<Rightarrow> 'd world" where
  "receiveAll msgs s = foldl (\<lambda>s' m. receiver m s') s msgs"


definition cursorPositionOf :: "string \<Rightarrow> 'd world \<Rightarrow> IPosition option" where
  "cursorPositionOf u s =
     (case cursorWidgets s u of None \<Rightarrow> None | Some r \<Rightarrow> cw_position (cursorHeap s ! r))"



lemma contentManagerOn_eq:
  "contentManagerOn e True =
     e\<lparr>channel := True, cm_tooltips := True, cm_tooltipDuration := 20, cursorWidgets := Map.empty,
       remoteSelections := Map.empty, cursorManager := True, selectionManager := True,
       contentSubscription := True\<rparr>"
  by (simp add: contentManagerOn_def new_EditorContentManager_def new_RemoteCursorManager_def
      new_RemoteSelectionManager_def)

section \<open>Ordering of positions\<close>

text \<open>
  Claim C8. For every pair of positions \<open>a\<close> and \<open>b\<close>, \<^verbatim>\<open>swapIfNeeded\<close> compares by line
  first, then by column: it returns \<open>(a, b)\<close> when \<open>a\<close> is before or equal to \<open>b\<close>, and
  \<open>(b, a)\<close> otherwise. Given (line 5, column 3) and (line 5, column 1) it returns
  ((5,1),(5,3)); two equal positions are returned unchanged. \<^verbatim>\<open>setPositions\<close> stores the
  pair in that order as the start and the end of the selection.
\<close>

theorem swapIfNeeded_orders:
  "swapIfNeeded a b = (if before_or_equal a b then (a, b) else (b, a))
   \<and> swapIfNeeded \<lparr>lineNumber = 5, column = 3\<rparr> \<lparr>lineNumber = 5, column = 1\<rparr>
       = (\<lparr>lineNumber = 5, column = 1\<rparr>, \<lparr>lineNumber = 5, column = 3\<rparr>)
   \<and> swapIfNeeded a a = (a, a)
   \<and> (r < length (selectionHeap s) \<longrightarrow>
        startPosition (selectionHeap (sel_setPositions a b r s) ! r) = Some (fst (swapIfNeeded a b))
        \<and> endPosition (selectionHeap (sel_setPositions a b r s) ! r) = Some (snd (swapIfNeeded a b)))"
  by (simp add: swapIfNeeded_def before_or_equal_def sel_setPositions_def sel_render_def
      sel_update_def Let_def)

theorem swapIfNeeded_orders_witness:
  "let s = snd (addSelection (remoteUser ''A'') (linePage ''hello'' 0));
       a = \<lparr>lineNumber = 5, column = 3\<rparr>; b = \<lparr>lineNumber = 5, column = 1\<rparr>
   in 0 < length (selectionHeap s)
      \<and> startPosition (selectionHeap (sel_setPositions a b 0 s) ! 0) = Some b
      \<and> endPosition (selectionHeap (sel_setPositions a b 0 s) ! 0) = Some a"
  using swapIfNeeded_orders [of "\<lparr>lineNumber = 5, column = 3\<rparr>" "\<lparr>lineNumber = 5, column = 1\<rparr>" 0
      "snd (addSelection (remoteUser ''A'') (linePage ''hello'' 0))"]
  by (simp add: Let_def addSelection_def new_RemoteSelection_def linePage_def editorPage_def
      remoteUser_def swapIfNeeded_def)

section \<open>The label of a remote selection\<close>

text \<open>
  Claim C10. For every user given to \<^verbatim>\<open>addSelection\<close> that has no selection yet, the
  \<^verbatim>\<open>RemoteSelection\<close> constructed has the user's colour string as its label, and the
  decoration rendered for it carries that colour string as hover message, not the
  user's label.
\<close>

theorem addSelection_label_is_color:
  "remoteSelections s (uid user) = None \<Longrightarrow>
   sel_label (selectionHeap (snd (addSelection user s)) ! fst (addSelection user s)) = color user
   \<and> map hoverMessage
         (decorations
            (selectionHeap
               (sel_setPositions a b (fst (addSelection user s)) (snd (addSelection user s)))
             ! fst (addSelection user s)))
       = [Some (color user)]"
  by (simp add: addSelection_def new_RemoteSelection_def Let_def sel_setPositions_def
      sel_render_def sel_update_def deltaDecorations_def)

theorem addSelection_label_is_color_witness:
  "let s = contentManagerOn (linePage ''hello'' 0) True;
       user = \<lparr>uid = ''A'', color = ''red'', label = ''Alice''\<rparr>;
       r = fst (addSelection user s);
       s' = sel_setPositions \<lparr>lineNumber = 1, column = 1\<rparr> \<lparr>lineNumber = 1, column = 3\<rparr> r
              (snd (addSelection user s))
   in remoteSelections s (uid user) = None
      \<and> sel_label (selectionHeap (snd (addSelection user s)) ! r) = ''red''
      \<and> map hoverMessage (decorations (selectionHeap s' ! r)) = [Some ''red'']
      \<and> color user \<noteq> label user"
  using addSelection_label_is_color
    [of "contentManagerOn (linePage ''hello'' 0) True" "\<lparr>uid = ''A'', color = ''red'', label = ''Alice''\<rparr>"
        "\<lparr>lineNumber = 1, column = 1\<rparr>" "\<lparr>lineNumber = 1, column = 3\<rparr>"]
  by (simp add: Let_def contentManagerOn_eq linePage_def editorPage_def)

section \<open>The two version checks\<close>

text \<open>
  Claim C4. With a document attached and a channel, a local content-change event is
  discarded (nothing is sent, nothing changes) when its version is strictly less than
  the current document version, and a \<^verbatim>\<open>CodeSnippet\<close> message with the event is sent
  otherwise. The inbound check differs: \<^verbatim>\<open>updateContent\<close> discards an event whose
  version is less than or equal to the current version, and applies its changes
  otherwise.
\<close>

theorem version_checks:
  "getModel s = Some model \<Longrightarrow> channel s \<Longrightarrow>
   sendCodeSnippet event s
     = (if versionId event < getVersionId model then s
        else s\<lparr>sent := sent s @ [CodeSnippet event]\<rparr>)
   \<and> updateContent u event s
     = (if versionId event \<le> getVersionId model then s
        else foldl (updateContent_change u) s (changes event))"
  by (simp add: sendCodeSnippet_def sendMessage_def updateContent_def)

text \<open>
  At version 3 an event of version 3 is sent but not applied, and one of version 2 is
  neither sent nor applied.
\<close>

theorem version_checks_witness:
  "let s = contentManagerOn (linePage ''hello'' 3) True;
       c = \<lparr>change_range = Range 1 1 1 1, rangeOffset = 0, rangeLength = 0, change_text = ''hi''\<rparr>;
       same = \<lparr>changes = [c], versionId = 3\<rparr>;
       earlier = \<lparr>changes = [c], versionId = 2\<rparr>
   in getModel s = Some \<lparr>content = ''hello'', getVersionId = 3\<rparr> \<and> channel s
      \<and> sent (sendCodeSnippet same s) = [CodeSnippet same]
      \<and> updateContent ''A'' same s = s
      \<and> sendCodeSnippet earlier s = s
      \<and> updateContent ''A'' earlier s = s"
  using version_checks
    [of "contentManagerOn (linePage ''hello'' 3) True" "\<lparr>content = ''hello'', getVersionId = 3\<rparr>"
        "\<lparr>changes = [\<lparr>change_range = Range 1 1 1 1, rangeOffset = 0, rangeLength = 0,
                       change_text = ''hi''\<rparr>], versionId = 3\<rparr>" "''A''"]
    version_checks
    [of "contentManagerOn (linePage ''hello'' 3) True" "\<lparr>content = ''hello'', getVersionId = 3\<rparr>"
        "\<lparr>changes = [\<lparr>change_range = Range 1 1 1 1, rangeOffset = 0, rangeLength = 0,
                       change_text = ''hi''\<rparr>], versionId = 2\<rparr>" "''A''"]
  by (simp add: Let_def contentManagerOn_eq linePage_def editorPage_def)

section \<open>Stale edits\<close>

lemma addOverlays_frame:
  "getModel (addOverlays user s) = getModel s"
  "sent (addOverlays user s) = sent s"
  "timers (addOverlays user s) = timers s"
  "take (length (cursorHeap s)) (cursorHeap (addOverlays user s)) = cursorHeap s"
  "list_all (\<lambda>w. cw_position w = None) (drop (length (cursorHeap s)) (cursorHeap (addOverlays user s)))"
  "take (length (selectionHeap s)) (selectionHeap (addOverlays user s)) = selectionHeap s"
  "list_all (\<lambda>w. startPosition w = None \<and> endPosition w = None \<and> decorations w = [])
     (drop (length (selectionHeap s)) (selectionHeap (addOverlays user s)))"
  by (simp_all add: addOverlays_def addCursor_def addSelection_def new_RemoteCursorWidget_def
      new_RemoteSelection_def onDidScrollChange_def addContentWidget_def Let_def
      split: option.splits)

text \<open>
  Claim C2. Processing an inbound \<^verbatim>\<open>CodeSnippet\<close> message whose version is less than or
  equal to the current document version leaves the model (text and version) as it
  was, sends nothing and sets no timer; every cursor widget and every selection that
  existed is unchanged, and an overlay the receiver creates for a sender seen for the
  first time has no position.
\<close>

theorem stale_edit_discarded:
  assumes "message msg = CodeSnippet event" "getModel s = Some model"
    "versionId event \<le> getVersionId model"
  shows "getModel (receiver msg s) = getModel s
    \<and> sent (receiver msg s) = sent s
    \<and> timers (receiver msg s) = timers s
    \<and> take (length (cursorHeap s)) (cursorHeap (receiver msg s)) = cursorHeap s
    \<and> list_all (\<lambda>w. cw_position w = None)
         (drop (length (cursorHeap s)) (cursorHeap (receiver msg s)))
    \<and> take (length (selectionHeap s)) (selectionHeap (receiver msg s)) = selectionHeap s
    \<and> list_all (\<lambda>w. startPosition w = None \<and> endPosition w = None \<and> decorations w = [])
         (drop (length (selectionHeap s)) (selectionHeap (receiver msg s)))"
proof (cases "msg_uid msg")
  case None
  then show ?thesis by (simp add: receiver_def)
next
  case (Some u)
  have "receiver msg s = addOverlays (remoteUser u) s"
    using assms Some by (simp add: receiver_def updateContent_def Let_def addOverlays_frame)
  then show ?thesis by (simp add: addOverlays_frame)
qed

theorem stale_edit_discarded_witness:
  "let s = contentManagerOn (linePage ''hello'' 3) True;
       c = \<lparr>change_range = Range 1 1 1 1, rangeOffset = 0, rangeLength = 0, change_text = ''hi''\<rparr>;
       event = \<lparr>changes = [c], versionId = 3\<rparr>;
       msg = \<lparr>msg_uid = Some ''A'', message = CodeSnippet event, timestamp = None\<rparr>
   in message msg = CodeSnippet event
      \<and> getModel s = Some \<lparr>content = ''hello'', getVersionId = 3\<rparr>
      \<and> versionId event \<le> 3
      \<and> getModel (receiver msg s) = Some \<lparr>content = ''hello'', getVersionId = 3\<rparr>
      \<and> sent (receiver msg s) = []
      \<and> list_all (\<lambda>w. cw_position w = None) (cursorHeap (receiver msg s))"
  using stale_edit_discarded
    [of "\<lparr>msg_uid = Some ''A'',
          message = CodeSnippet \<lparr>changes = [\<lparr>change_range = Range 1 1 1 1, rangeOffset = 0,
                                               rangeLength = 0, change_text = ''hi''\<rparr>],
                                  versionId = 3\<rparr>,
          timestamp = None\<rparr>"
        "\<lparr>changes = [\<lparr>change_range = Range 1 1 1 1, rangeOffset = 0, rangeLength = 0,
                       change_text = ''hi''\<rparr>], versionId = 3\<rparr>"
        "contentManagerOn (linePage ''hello'' 3) True" "\<lparr>content = ''hello'', getVersionId = 3\<rparr>"]
  by (simp add: Let_def contentManagerOn_eq linePage_def editorPage_def)

section \<open>Adding an overlay twice\<close>

text \<open>
  Claim C6. For both managers and every two users with the same user id: the second
  call of add returns the reference the first call returned and leaves the page as the
  first call left it (no second widget, no change of a property, whatever colour and
  label the second user has); the two calls together construct exactly one widget
  when the id had none, and none when it had one.
\<close>

theorem add_twice:
  "uid user' = uid user \<Longrightarrow>
   fst (addCursor user' (snd (addCursor user s))) = fst (addCursor user s)
   \<and> snd (addCursor user' (snd (addCursor user s))) = snd (addCursor user s)
   \<and> length (cursorHeap (snd (addCursor user' (snd (addCursor user s)))))
       = length (cursorHeap s) + (if cursorWidgets s (uid user) = None then 1 else 0)
   \<and> fst (addSelection user' (snd (addSelection user s))) = fst (addSelection user s)
   \<and> snd (addSelection user' (snd (addSelection user s))) = snd (addSelection user s)
   \<and> length (selectionHeap (snd (addSelection user' (snd (addSelection user s)))))
       = length (selectionHeap s) + (if remoteSelections s (uid user) = None then 1 else 0)"
  by (simp add: addCursor_def addSelection_def new_RemoteCursorWidget_def
      new_RemoteSelection_def onDidScrollChange_def addContentWidget_def Let_def
      split: option.splits)

theorem add_twice_witness:
  "let s = contentManagerOn (linePage ''hello'' 0) True;
       user = \<lparr>uid = ''A'', color = ''red'', label = ''Alice''\<rparr>;
       user' = \<lparr>uid = ''A'', color = ''green'', label = ''Bob''\<rparr>
   in uid user' = uid user
      \<and> fst (addCursor user s) = 0
      \<and> fst (addCursor user' (snd (addCursor user s))) = 0
      \<and> length (cursorHeap (snd (addCursor user' (snd (addCursor user s))))) = 1
      \<and> cw_background (cursorHeap (snd (addCursor user' (snd (addCursor user s)))) ! 0) = ''red''
      \<and> fst (addSelection user' (snd (addSelection user s))) = 0
      \<and> length (selectionHeap (snd (addSelection user' (snd (addSelection user s))))) = 1"
  using add_twice
    [of "\<lparr>uid = ''A'', color = ''green'', label = ''Bob''\<rparr>"
        "\<lparr>uid = ''A'', color = ''red'', label = ''Alice''\<rparr>"
        "contentManagerOn (linePage ''hello'' 0) True"]
  by (simp add: Let_def contentManagerOn_eq linePage_def editorPage_def addCursor_def
      addSelection_def new_RemoteCursorWidget_def new_RemoteSelection_def onDidScrollChange_def
      addContentWidget_def)

section \<open>Removing an overlay\<close>

lemma removeCursor_deletes: "cursorWidgets (removeCursor ident s) ident = None"
  by (subst removeCursor.simps) (simp add: Let_def)

text \<open>
  Claim C5. The claim says that after \<^verbatim>\<open>remove(id)\<close> of either manager the registry has
  no entry for the id. \<^verbatim>\<open>removeCursor\<close> deletes the entry (lemma \<open>removeCursor_deletes\<close>);
  \<^verbatim>\<open>removeSelection\<close> does not: on a page where user A has a selection, registered under
  reference 0, \<^verbatim>\<open>removeSelection\<close> of A disposes the selection and the registry still
  maps A to reference 0.
\<close>

theorem removeSelection_keeps_entry:
  "let s = snd (addSelection (remoteUser ''A'') (contentManagerOn (linePage ''hello'' 0) True))
   in remoteSelections s ''A'' = Some 0
      \<and> remoteSelections (removeSelection ''A'' s) ''A'' = Some 0
      \<and> sel_disposed (selectionHeap (removeSelection ''A'' s) ! 0)
      \<and> cursorWidgets (removeCursor ''A'' (snd (addCursor (remoteUser ''A'') s))) ''A'' = None"
  apply (simp add: Let_def contentManagerOn_eq linePage_def editorPage_def remoteUser_def
      addSelection_def new_RemoteSelection_def removeCursor_deletes)
  apply (simp add: removeSelection.simps sel_dispose.simps sel_isDisposed_def Let_def
     sel_removeStyleElement_def sel_hide_def sel_setDisposed_def sel_countOnDisposed_def sel_update_def)
  done



section \<open>Timers as lists\<close>

lemma timers_okIn_empty: "timers_okIn [] n []"
  by (simp add: timers_okIn_def)

lemma timers_okIn_grow: "timers_okIn ts n hs \<Longrightarrow> timers_okIn ts n (hs @ [None])"
  by (auto simp: timers_okIn_def nth_append less_Suc_eq pendingHideIn_def filter_empty_conv)

lemma timers_okIn_add_show:
  "timers_okIn ts n hs \<Longrightarrow> r < length hs \<Longrightarrow>
   timers_okIn (ts @ [\<lparr>timer_id = n, timer_callback = ShowTooltip r, timer_delay = d\<rparr>]) (Suc n) hs"
  by (fastforce simp: timers_okIn_def pendingHideIn_def less_Suc_eq)

lemma timers_okIn_add_hide:
  assumes "timers_okIn ts n hs" "r < length hs" "hs ! r = None"
  shows "timers_okIn (ts @ [\<lparr>timer_id = n, timer_callback = HideTooltip r, timer_delay = d\<rparr>])
           (Suc n) (hs[r := Some n])"
proof -
  have fresh: "n \<notin> timer_id ` set ts" using assms(1) by (auto simp: timers_okIn_def)
  have "pendingHideIn r ts = []" using assms by (simp add: timers_okIn_def)
  then show ?thesis
    using assms fresh
    by (auto simp: timers_okIn_def pendingHideIn_def less_Suc_eq nth_list_update)
qed

lemma pendingHideIn_filter:
  "pendingHideIn r (filter (\<lambda>x. timer_id x \<noteq> t) ts) = filter (\<lambda>i. i \<noteq> t) (pendingHideIn r ts)"
  by (induction ts) (auto simp: pendingHideIn_def)

lemma pendingHideIn_remove_other:
  "t \<notin> set (pendingHideIn r ts) \<Longrightarrow>
   pendingHideIn r (filter (\<lambda>x. timer_id x \<noteq> t) ts) = pendingHideIn r ts"
  by (auto simp: pendingHideIn_filter filter_id_conv)

lemma pendingHideIn_remove_single:
  "pendingHideIn r ts = [t] \<Longrightarrow> pendingHideIn r (filter (\<lambda>x. timer_id x \<noteq> t) ts) = []"
  by (simp add: pendingHideIn_filter)

lemma pendingHideIn_distinct_owner:
  assumes "distinct (map timer_id ts)" "t \<in> set (pendingHideIn r ts)" "r' \<noteq> r"
  shows "t \<notin> set (pendingHideIn r' ts)"
proof
  assume "t \<in> set (pendingHideIn r' ts)"
  then obtain x where x: "x \<in> set ts" "timer_id x = t" "timer_callback x = HideTooltip r'"
    by (auto simp: pendingHideIn_def)
  from assms(2) obtain y where y: "y \<in> set ts" "timer_id y = t" "timer_callback y = HideTooltip r"
    by (auto simp: pendingHideIn_def)
  from assms(1) x y have "x = y" by (auto simp: distinct_map inj_on_def)
  with x y assms(3) show False by simp
qed

lemma timers_okIn_remove_hide:
  assumes "timers_okIn ts n hs" "r < length hs" "hs ! r = Some t"
  shows "timers_okIn (filter (\<lambda>x. timer_id x \<noteq> t) ts) n (hs[r := None])"
proof -
  have d: "distinct (map timer_id ts)" using assms(1) by (simp add: timers_okIn_def)
  have pr: "pendingHideIn r ts = [t]" using assms by (simp add: timers_okIn_def)
  have other: "pendingHideIn r' (filter (\<lambda>x. timer_id x \<noteq> t) ts) = pendingHideIn r' ts"
    if "r' \<noteq> r" for r'
    using pendingHideIn_distinct_owner [OF d _ that, of t] pr
    by (simp add: pendingHideIn_remove_other)
  have "distinct (map timer_id (filter (\<lambda>x. timer_id x \<noteq> t) ts))"
    using d by (simp add: distinct_map_filter)
  moreover have "\<forall>x \<in> set (filter (\<lambda>x. timer_id x \<noteq> t) ts).
      timer_id x < n \<and> callbackWidget (timer_callback x) < length (hs[r := None])"
    using assms(1) by (auto simp: timers_okIn_def)
  moreover have "\<forall>r' < length (hs[r := None]).
      pendingHideIn r' (filter (\<lambda>x. timer_id x \<noteq> t) ts)
        = (case hs[r := None] ! r' of None \<Rightarrow> [] | Some t \<Rightarrow> [t])"
  proof (intro allI impI)
    fix r' assume r': "r' < length (hs[r := None])"
    show "pendingHideIn r' (filter (\<lambda>x. timer_id x \<noteq> t) ts)
        = (case hs[r := None] ! r' of None \<Rightarrow> [] | Some t \<Rightarrow> [t])"
    proof (cases "r' = r")
      case True
      then show ?thesis using pr assms(2) by (simp add: pendingHideIn_remove_single)
    next
      case False
      then show ?thesis using other assms(1) r' by (simp add: timers_okIn_def)
    qed
  qed
  ultimately show ?thesis by (simp add: timers_okIn_def)
qed

lemma timers_okIn_remove_show:
  assumes "timers_okIn ts n hs" "x \<in> set ts" "timer_id x = t" "timer_callback x = ShowTooltip r"
  shows "timers_okIn (filter (\<lambda>x. timer_id x \<noteq> t) ts) n hs"
proof -
  have d: "distinct (map timer_id ts)" using assms(1) by (simp add: timers_okIn_def)
  have "t \<notin> set (pendingHideIn r' ts)" for r'
  proof
    assume "t \<in> set (pendingHideIn r' ts)"
    then obtain y where y: "y \<in> set ts" "timer_id y = t" "timer_callback y = HideTooltip r'"
      by (auto simp: pendingHideIn_def)
    from d assms(2,3) y have "x = y" by (auto simp: distinct_map inj_on_def)
    with y assms(4) show False by simp
  qed
  then have "pendingHideIn r' (filter (\<lambda>x. timer_id x \<noteq> t) ts) = pendingHideIn r' ts" for r'
    by (simp add: pendingHideIn_remove_other)
  then show ?thesis
    using assms(1) d by (auto simp: timers_okIn_def distinct_map_filter)
qed

lemma timers_okIn_pending_le_1:
  "timers_okIn ts n hs \<Longrightarrow> length (pendingHideIn r ts) \<le> 1"
proof (cases "r < length hs")
  case True
  assume "timers_okIn ts n hs"
  with True show ?thesis by (simp add: timers_okIn_def split: option.splits)
next
  case False
  assume "timers_okIn ts n hs"
  with False have "pendingHideIn r ts = []"
    by (auto simp: timers_okIn_def pendingHideIn_def filter_empty_conv)
  then show ?thesis by simp
qed

section \<open>What each function leaves alone\<close>

lemma map_update_same:
  assumes "f y = f (xs ! r)"
  shows "map f (xs[r := y]) = map f xs"
proof (cases "r < length xs")
  case True
  with assms have "(map f xs)[r := f y] = map f xs" by (simp add: list_update_same_conv)
  then show ?thesis by (simp add: map_update)
next
  case False
  then have "xs[r := y] = xs" by (simp add: list_update_beyond)
  then show ?thesis by simp
qed

lemma length_cw_flags [simp]: "length (cw_flags s) = length (cursorHeap s)"
  by (simp add: cw_flags_def)

lemma length_cw_hideTimers [simp]: "length (cw_hideTimers s) = length (cursorHeap s)"
  by (simp add: cw_hideTimers_def)

lemma length_sel_flags [simp]: "length (sel_flags s) = length (selectionHeap s)"
  by (simp add: sel_flags_def)

lemma same_overlays_refl [simp]: "same_overlays s s"
  by (simp add: same_overlays_def)

lemma same_timers_refl [simp]: "same_timers s s"
  by (simp add: same_timers_def)

lemma same_overlays_trans: "same_overlays s s1 \<Longrightarrow> same_overlays s1 s2 \<Longrightarrow> same_overlays s s2"
  by (simp add: same_overlays_def)

lemma same_timers_trans: "same_timers s s1 \<Longrightarrow> same_timers s1 s2 \<Longrightarrow> same_timers s s2"
  by (simp add: same_timers_def)

lemma same_overlays_length:
  "same_overlays s s' \<Longrightarrow> length (cursorHeap s') = length (cursorHeap s)"
  "same_overlays s s' \<Longrightarrow> length (selectionHeap s') = length (selectionHeap s)"
  by (metis length_cw_flags same_overlays_def, metis length_sel_flags same_overlays_def)

lemma same_overlays_ok:
  assumes "same_overlays s s'"
  shows "registry_ok s' = registry_ok s" "calls_ok s' = calls_ok s"
  using assms same_overlays_length [OF assms]
  by (simp_all add: same_overlays_def registry_ok_def calls_ok_def)

lemma same_timers_ok: "same_timers s s' \<Longrightarrow> timers_ok s' = timers_ok s"
  by (simp add: same_timers_def timers_ok_def)

lemma page_ok_same:
  "same_overlays s s' \<Longrightarrow> same_timers s s' \<Longrightarrow> page_ok s \<Longrightarrow> page_ok s'"
  by (simp add: page_ok_def same_overlays_ok same_timers_ok)

lemma page_ok_same_overlays:
  "same_overlays s s' \<Longrightarrow> timers_ok s' \<Longrightarrow> page_ok s \<Longrightarrow> page_ok s'"
  by (simp add: page_ok_def same_overlays_ok)

text \<open>Updates of one widget or one selection that write neither flag.\<close>

lemma cw_update_same_overlays:
  "(\<And>w. cw_disposed (f w) = cw_disposed w \<and> cw_onDisposedCalls (f w) = cw_onDisposedCalls w)
   \<Longrightarrow> same_overlays s (cw_update r f s)"
  by (simp add: same_overlays_def cw_update_def cw_flags_def sel_flags_def map_update_same)

lemma cw_update_same_timers:
  "(\<And>w. cw_hideTimer (f w) = cw_hideTimer w) \<Longrightarrow> same_timers s (cw_update r f s)"
  by (simp add: same_timers_def cw_update_def cw_hideTimers_def map_update_same)

lemma sel_update_same_overlays:
  "(\<And>w. sel_disposed (f w) = sel_disposed w \<and> sel_onDisposedCalls (f w) = sel_onDisposedCalls w)
   \<Longrightarrow> same_overlays s (sel_update r f s)"
  by (simp add: same_overlays_def sel_update_def cw_flags_def sel_flags_def map_update_same)

lemma sel_update_same_timers: "same_timers s (sel_update r f s)"
  by (simp add: same_timers_def sel_update_def cw_hideTimers_def)

text \<open>The content manager's sending, the editor, and the quiet methods of the overlays.\<close>

lemma sendMessage_same: "same_overlays s (sendMessage m s)" "same_timers s (sendMessage m s)"
  by (simp_all add: sendMessage_def same_overlays_def same_timers_def cw_flags_def sel_flags_def
      cw_hideTimers_def)

lemma sendCodeSnippet_same:
  "same_overlays s (sendCodeSnippet e s)" "same_timers s (sendCodeSnippet e s)"
  by (simp_all add: sendCodeSnippet_def sendMessage_same split: option.splits)

lemma raiseCursorEvents_frame:
  "getModel (foldl raiseCursorEvent s evs) = getModel s"
  "channel (foldl raiseCursorEvent s evs) = channel s"
  "contentSubscription (foldl raiseCursorEvent s evs) = contentSubscription s"
  "cursorManager (foldl raiseCursorEvent s evs) = cursorManager s"
  "selectionManager (foldl raiseCursorEvent s evs) = selectionManager s"
  "cursorWidgets (foldl raiseCursorEvent s evs) = cursorWidgets s"
  "cursorHeap (foldl raiseCursorEvent s evs) = cursorHeap s"
  "selectionHeap (foldl raiseCursorEvent s evs) = selectionHeap s"
  "timers (foldl raiseCursorEvent s evs) = timers s"
  "nextTimer (foldl raiseCursorEvent s evs) = nextTimer s"
  "applyEdit (foldl raiseCursorEvent s evs) = applyEdit s"
  "getPositionAt (foldl raiseCursorEvent s evs) = getPositionAt s"
  "getOffsetAt (foldl raiseCursorEvent s evs) = getOffsetAt s"
  "dropsEdit (foldl raiseCursorEvent s evs) = dropsEdit s"
  "cursorEvents (foldl raiseCursorEvent s evs) = cursorEvents s"
  by (induction evs arbitrary: s)
    (simp_all add: raiseCursorEvent_def editorCursorPositionChangeListener_def
      editorCursorSelectionChangedListener_def sendMessage_def split: cursorEvent.splits)

lemma executeEdits_same:
  "same_overlays s (executeEdits u rng txt s)" "same_timers s (executeEdits u rng txt s)"
  by (simp_all add: executeEdits_def sendCodeSnippet_def sendMessage_def Let_def
      raiseCursorEvents_frame same_overlays_def same_timers_def cw_flags_def sel_flags_def
      cw_hideTimers_def split: option.splits)

lemma cw_hide_same: "same_overlays s (cw_hide r s)" "same_timers s (cw_hide r s)"
  by (simp_all add: cw_hide_def cw_update_same_overlays cw_update_same_timers)

lemma cw_show_same: "same_overlays s (cw_show r s)" "same_timers s (cw_show r s)"
  by (simp_all add: cw_show_def cw_update_same_overlays cw_update_same_timers)

lemma cw_updatePosition_same:
  "same_overlays s (cw_updatePosition pos r s)" "same_timers s (cw_updatePosition pos r s)"
  by (simp_all add: cw_updatePosition_def layoutContentWidget_def cw_update_same_overlays
      cw_update_same_timers)

lemma cw_setPositionWithModelContentChange_same:
  "same_overlays s (cw_setPositionWithModelContentChange c r s)"
  "same_timers s (cw_setPositionWithModelContentChange c r s)"
  by (simp_all add: cw_setPositionWithModelContentChange_def cw_updatePosition_same
      split: option.splits)

lemma cw_setTooltipVisible_same:
  "same_overlays s (cw_setTooltipVisible v r s)" "same_timers s (cw_setTooltipVisible v r s)"
  by (simp_all add: cw_setTooltipVisible_def cw_update_same_overlays cw_update_same_timers
      split: option.splits)

lemma sel_render_same: "same_overlays s (sel_render r s)" "same_timers s (sel_render r s)"
  by (simp_all add: sel_render_def Let_def sel_update_same_overlays sel_update_same_timers
      split: option.splits)

lemma sel_hide_same: "same_overlays s (sel_hide r s)" "same_timers s (sel_hide r s)"
  by (simp_all add: sel_hide_def sel_update_same_overlays sel_update_same_timers)

lemma sel_show_same: "same_overlays s (sel_show r s)" "same_timers s (sel_show r s)"
  by (simp_all add: sel_show_def sel_render_same)

lemma sel_setPositions_same:
  "same_overlays s (sel_setPositions a b r s)" "same_timers s (sel_setPositions a b r s)"
proof -
  let ?s1 = "sel_update r (\<lambda>w. w\<lparr>startPosition := Some (fst (swapIfNeeded a b)),
                                   endPosition := Some (snd (swapIfNeeded a b))\<rparr>) s"
  have "same_overlays s ?s1" by (rule sel_update_same_overlays) simp
  then show "same_overlays s (sel_setPositions a b r s)"
    unfolding sel_setPositions_def Let_def
    by (rule same_overlays_trans) (rule sel_render_same)
  have "same_timers s ?s1" by (rule sel_update_same_timers)
  then show "same_timers s (sel_setPositions a b r s)"
    unfolding sel_setPositions_def Let_def
    by (rule same_timers_trans) (rule sel_render_same)
qed

lemma sel_setOffsets_same:
  "same_overlays s (sel_setOffsets a b r s)" "same_timers s (sel_setOffsets a b r s)"
  by (simp_all add: sel_setOffsets_def sel_setPositions_same split: option.splits)

lemma selection_manager_same:
  "same_overlays s (setSelectionOffsets u a b s)" "same_timers s (setSelectionOffsets u a b s)"
  "same_overlays s (setSelectionPositions u p q s)" "same_timers s (setSelectionPositions u p q s)"
  "same_overlays s (showSelection u s)" "same_timers s (showSelection u s)"
  "same_overlays s (hideSelection u s)" "same_timers s (hideSelection u s)"
  by (simp_all add: setSelectionOffsets_def setSelectionPositions_def showSelection_def
      hideSelection_def sel_setOffsets_same sel_setPositions_same sel_show_same sel_hide_same
      split: option.splits)

lemma cursor_manager_same:
  "same_overlays s (showCursor u s)" "same_timers s (showCursor u s)"
  "same_overlays s (hideCursor u s)" "same_timers s (hideCursor u s)"
  by (simp_all add: showCursor_def hideCursor_def cw_show_same cw_hide_same split: option.splits)

lemma updateSelection_same:
  "same_overlays s (updateSelection u e s)" "same_timers s (updateSelection u e s)"
  by (simp_all add: updateSelection_def Let_def selection_manager_same split: option.splits)

section \<open>Timers of the cursor widgets\<close>

lemma setTimeout_same_overlays: "same_overlays s (snd (setTimeout cb d s))"
  by (simp add: setTimeout_def same_overlays_def cw_flags_def sel_flags_def)

lemma clearTimeout_same_overlays: "same_overlays s (clearTimeout t s)"
  by (simp add: clearTimeout_def same_overlays_def cw_flags_def sel_flags_def)

lemma clearTimeout_timers:
  "timers (clearTimeout t s) = filter (\<lambda>x. timer_id x \<noteq> t) (timers s)"
  "nextTimer (clearTimeout t s) = nextTimer s"
  "cw_hideTimers (clearTimeout t s) = cw_hideTimers s"
  "cursorHeap (clearTimeout t s) = cursorHeap s"
  by (simp_all add: clearTimeout_def cw_hideTimers_def)

lemma setTimeout_show_ok:
  "timers_ok s \<Longrightarrow> r < length (cursorHeap s) \<Longrightarrow>
   timers_ok (snd (setTimeout (ShowTooltip r) d s))"
  by (simp add: timers_ok_def setTimeout_def cw_hideTimers_def timers_okIn_add_show)

lemma cw_setPosition_same_overlays: "same_overlays s (cw_setPosition pos r s)"
  unfolding cw_setPosition_def Let_def
  by (auto intro: same_overlays_trans [OF cw_updatePosition_same(1) setTimeout_same_overlays]
      cw_updatePosition_same)

lemma cw_setPosition_timers_ok:
  assumes "timers_ok s" "r < length (cursorHeap s)"
  shows "timers_ok (cw_setPosition pos r s)"
proof -
  let ?s1 = "cw_updatePosition pos r s"
  have ok1: "timers_ok ?s1"
    using assms(1) by (simp add: same_timers_ok [OF cw_updatePosition_same(2)])
  have len: "r < length (cursorHeap ?s1)"
    using assms(2) by (simp add: same_overlays_length [OF cw_updatePosition_same(1)])
  show ?thesis
    unfolding cw_setPosition_def Let_def
    using ok1 len by (simp add: setTimeout_show_ok)
qed

lemma cw_setOffset_same_overlays: "same_overlays s (cw_setOffset offset r s)"
  by (simp add: cw_setOffset_def cw_setPosition_same_overlays split: option.splits)

lemma cw_setOffset_timers_ok:
  "timers_ok s \<Longrightarrow> r < length (cursorHeap s) \<Longrightarrow> timers_ok (cw_setOffset offset r s)"
  by (simp add: cw_setOffset_def cw_setPosition_timers_ok split: option.splits)

lemma cw_showTooltip_same_overlays: "same_overlays s (cw_showTooltip r s)"
proof -
  let ?s2 = "case cw_hideTimer (cursorHeap s ! r) of
               Some t \<Rightarrow> clearTimeout t s | None \<Rightarrow> cw_setTooltipVisible True r s"
  have s2: "same_overlays s ?s2"
    by (simp add: clearTimeout_same_overlays cw_setTooltipVisible_same split: option.splits)
  let ?s3 = "snd (setTimeout (HideTooltip r) (cw_tooltipDuration (cursorHeap ?s2 ! r)) ?s2)"
  have s3: "same_overlays s ?s3"
    by (rule same_overlays_trans [OF s2 setTimeout_same_overlays])
  have "same_overlays s (cw_update r (\<lambda>w. w\<lparr>cw_hideTimer := Some (nextTimer ?s2)\<rparr>) ?s3)"
    by (rule same_overlays_trans [OF s3]) (rule cw_update_same_overlays, simp)
  then show ?thesis
    by (simp add: cw_showTooltip_def cw_updateTooltipPosition_def Let_def setTimeout_def
        split_def)
qed

lemma cw_showTooltip_timers:
  assumes "r < length (cursorHeap s)"
  shows "timers (cw_showTooltip r s)
      = (case cw_hideTimers s ! r of
           Some t \<Rightarrow> filter (\<lambda>x. timer_id x \<noteq> t) (timers s)
         | None \<Rightarrow> timers s)
        @ [\<lparr>timer_id = nextTimer s, timer_callback = HideTooltip r,
            timer_delay = cw_tooltipDuration (cursorHeap s ! r)\<rparr>]"
    and "nextTimer (cw_showTooltip r s) = Suc (nextTimer s)"
    and "cw_hideTimers (cw_showTooltip r s) = (cw_hideTimers s)[r := Some (nextTimer s)]"
  using assms
  by (simp_all add: cw_showTooltip_def cw_updateTooltipPosition_def Let_def setTimeout_def
      clearTimeout_def cw_setTooltipVisible_def cw_update_def cw_hideTimers_def split_def
      map_update split: option.splits)

lemma cw_showTooltip_timers_ok:
  assumes "timers_ok s" "r < length (cursorHeap s)"
  shows "timers_ok (cw_showTooltip r s)"
proof (cases "cw_hideTimers s ! r")
  case None
  then show ?thesis
    using assms timers_okIn_add_hide [of "timers s" "nextTimer s" "cw_hideTimers s" r]
    by (simp add: timers_ok_def cw_showTooltip_timers)
next
  case (Some t)
  have "timers_okIn (filter (\<lambda>x. timer_id x \<noteq> t) (timers s)) (nextTimer s)
          ((cw_hideTimers s)[r := None])"
    using assms Some by (simp add: timers_ok_def timers_okIn_remove_hide)
  then have "timers_okIn
      (filter (\<lambda>x. timer_id x \<noteq> t) (timers s)
         @ [\<lparr>timer_id = nextTimer s, timer_callback = HideTooltip r,
             timer_delay = cw_tooltipDuration (cursorHeap s ! r)\<rparr>])
      (Suc (nextTimer s)) ((cw_hideTimers s)[r := None, r := Some (nextTimer s)])"
    using assms(2) by (intro timers_okIn_add_hide) simp_all
  then show ?thesis
    using assms Some by (simp add: timers_ok_def cw_showTooltip_timers)
qed

lemma cw_hideTimerCallback_same_overlays: "same_overlays s (cw_hideTimerCallback r s)"
  unfolding cw_hideTimerCallback_def
  by (rule same_overlays_trans [OF cw_setTooltipVisible_same(1)])
    (rule cw_update_same_overlays, simp)

lemma cw_hideTimerCallback_timers:
  "timers (cw_hideTimerCallback r s) = timers s"
  "nextTimer (cw_hideTimerCallback r s) = nextTimer s"
  "cw_hideTimers (cw_hideTimerCallback r s) = (cw_hideTimers s)[r := None]"
  by (simp_all add: cw_hideTimerCallback_def cw_setTooltipVisible_def cw_update_def
      cw_hideTimers_def map_update split: option.splits)

lemma find_timer:
  "find (\<lambda>x. timer_id x = t) ts = Some tm \<Longrightarrow> tm \<in> set ts \<and> timer_id tm = t"
  by (induction ts) (auto split: if_splits)

lemma timerFired_same_overlays: "same_overlays s (timerFired t s)"
  by (auto simp: timerFired_def split: option.splits timer_callback.splits
      intro: same_overlays_trans [OF clearTimeout_same_overlays cw_showTooltip_same_overlays]
        same_overlays_trans [OF clearTimeout_same_overlays cw_hideTimerCallback_same_overlays])

lemma timerFired_timers_ok:
  assumes "timers_ok s"
  shows "timers_ok (timerFired t s)"
proof (cases "find (\<lambda>x. timer_id x = t) (timers s)")
  case None
  then show ?thesis using assms by (simp add: timerFired_def)
next
  case (Some tm)
  then have tm: "tm \<in> set (timers s)" "timer_id tm = t" by (auto dest: find_timer)
  have ok: "timers_okIn (timers s) (nextTimer s) (cw_hideTimers s)"
    using assms by (simp add: timers_ok_def)
  show ?thesis
  proof (cases "timer_callback tm")
    case (ShowTooltip r)
    have r: "r < length (cursorHeap s)"
      using ok tm ShowTooltip by (fastforce simp: timers_okIn_def)
    have "timers_ok (clearTimeout t s)"
      using timers_okIn_remove_show [OF ok tm ShowTooltip]
      by (simp add: timers_ok_def clearTimeout_timers)
    moreover have "r < length (cursorHeap (clearTimeout t s))"
      using r by (simp add: clearTimeout_timers)
    ultimately show ?thesis
      using Some ShowTooltip by (simp add: timerFired_def cw_showTooltip_timers_ok)
  next
    case (HideTooltip r)
    have r: "r < length (cw_hideTimers s)"
      using ok tm HideTooltip by (fastforce simp: timers_okIn_def)
    have "t \<in> set (pendingHideIn r (timers s))"
      using tm HideTooltip by (force simp: pendingHideIn_def)
    then have "cw_hideTimers s ! r = Some t"
      using ok r by (auto simp: timers_okIn_def split: option.splits)
    then have "timers_okIn (filter (\<lambda>x. timer_id x \<noteq> t) (timers s)) (nextTimer s)
        ((cw_hideTimers s)[r := None])"
      using ok r by (simp add: timers_okIn_remove_hide)
    then show ?thesis
      using Some HideTooltip
      by (simp add: timerFired_def timers_ok_def cw_hideTimerCallback_timers clearTimeout_timers)
  qed
qed

section \<open>Adding and disposing overlays\<close>

lemma list_all_update: "list_all P xs \<Longrightarrow> P y \<Longrightarrow> list_all P (xs[r := y])"
  by (induction xs arbitrary: r) (auto split: nat.splits)

lemma addCursor_page_ok:
  assumes "page_ok s"
  shows "page_ok (snd (addCursor user s))"
proof (cases "cursorWidgets s (uid user)")
  case (Some r)
  then show ?thesis using assms by (simp add: addCursor_def)
next
  case None
  let ?s' = "snd (addCursor user s)"
  have heap: "\<exists>w. cursorHeap ?s' = cursorHeap s @ [w] \<and> \<not> cw_disposed w
      \<and> cw_onDisposedCalls w = 0 \<and> cw_hideTimer w = None"
    using None
    by (simp add: addCursor_def new_RemoteCursorWidget_def onDidScrollChange_def
        addContentWidget_def Let_def)
  have rest: "cursorWidgets ?s' = (cursorWidgets s)(uid user \<mapsto> length (cursorHeap s))"
    "selectionHeap ?s' = selectionHeap s" "timers ?s' = timers s" "nextTimer ?s' = nextTimer s"
    using None
    by (simp_all add: addCursor_def new_RemoteCursorWidget_def onDidScrollChange_def
        addContentWidget_def Let_def)
  from heap obtain w where w: "cursorHeap ?s' = cursorHeap s @ [w]" "\<not> cw_disposed w"
    "cw_onDisposedCalls w = 0" "cw_hideTimer w = None" by blast
  have "registry_ok ?s'"
    using assms w(1) rest(1) by (auto simp: page_ok_def registry_ok_def less_Suc_eq)
  moreover have "calls_ok ?s'"
    using assms w rest(2)
    by (simp add: page_ok_def calls_ok_def cw_flags_def sel_flags_def flags_ok_def)
  moreover have "timers_ok ?s'"
    using assms w rest(3,4) timers_okIn_grow [of "timers s" "nextTimer s" "cw_hideTimers s"]
    by (simp add: page_ok_def timers_ok_def cw_hideTimers_def)
  ultimately show ?thesis by (simp add: page_ok_def)
qed

lemma addCursor_registered:
  "registry_ok s \<Longrightarrow>
   cursorWidgets (snd (addCursor user s)) (uid user) = Some (fst (addCursor user s))
   \<and> fst (addCursor user s) < length (cursorHeap (snd (addCursor user s)))"
  by (auto simp: addCursor_def new_RemoteCursorWidget_def onDidScrollChange_def
      addContentWidget_def Let_def registry_ok_def split: option.splits)

lemma addSelection_page_ok:
  assumes "page_ok s"
  shows "page_ok (snd (addSelection user s))"
proof (cases "remoteSelections s (uid user)")
  case (Some r)
  then show ?thesis using assms by (simp add: addSelection_def)
next
  case None
  let ?s' = "snd (addSelection user s)"
  have heap: "\<exists>w. selectionHeap ?s' = selectionHeap s @ [w] \<and> \<not> sel_disposed w
      \<and> sel_onDisposedCalls w = 0"
    using None by (simp add: addSelection_def new_RemoteSelection_def Let_def)
  have rest: "cursorWidgets ?s' = cursorWidgets s" "cursorHeap ?s' = cursorHeap s"
    "timers ?s' = timers s" "nextTimer ?s' = nextTimer s"
    using None by (simp_all add: addSelection_def new_RemoteSelection_def Let_def)
  from heap obtain w where w: "selectionHeap ?s' = selectionHeap s @ [w]" "\<not> sel_disposed w"
    "sel_onDisposedCalls w = 0" by blast
  show ?thesis
    using assms w rest
    by (simp add: page_ok_def registry_ok_def calls_ok_def timers_ok_def cw_flags_def
        sel_flags_def cw_hideTimers_def flags_ok_def)
qed

text \<open>The part of \<^verbatim>\<open>dispose\<close> of a widget before the callback.\<close>

lemma cw_dispose_prefix_flags:
  assumes "\<not> cw_isDisposed r s"
  shows "cw_flags (cw_countOnDisposed r (cw_setDisposed r
            (if cw_scrollListener (cursorHeap (removeContentWidget r s) ! r)
             then scrollListener_dispose r (removeContentWidget r s)
             else removeContentWidget r s)))
       = (cw_flags s)[r := (True, Suc (snd (cw_flags s ! r)))]"
  using assms
  by (simp add: cw_isDisposed_def cw_countOnDisposed_def cw_setDisposed_def cw_update_def
      scrollListener_dispose_def removeContentWidget_def cw_flags_def map_update)

lemma cw_dispose_steps_same_timers:
  "same_timers s (removeContentWidget r s)"
  "same_timers s (scrollListener_dispose r s)"
  "same_timers s (cw_setDisposed r s)"
  "same_timers s (cw_countOnDisposed r s)"
  by (simp_all add: removeContentWidget_def scrollListener_dispose_def cw_setDisposed_def
      cw_countOnDisposed_def cw_update_same_timers)
    (simp_all add: same_timers_def cw_hideTimers_def)

lemma cw_dispose_steps_rest:
  "cursorWidgets (removeContentWidget r s) = cursorWidgets s"
  "cursorWidgets (scrollListener_dispose r s) = cursorWidgets s"
  "cursorWidgets (cw_setDisposed r s) = cursorWidgets s"
  "cursorWidgets (cw_countOnDisposed r s) = cursorWidgets s"
  "sel_flags (removeContentWidget r s) = sel_flags s"
  "sel_flags (scrollListener_dispose r s) = sel_flags s"
  "sel_flags (cw_setDisposed r s) = sel_flags s"
  "sel_flags (cw_countOnDisposed r s) = sel_flags s"
  "length (cursorHeap (removeContentWidget r s)) = length (cursorHeap s)"
  "length (cursorHeap (scrollListener_dispose r s)) = length (cursorHeap s)"
  "length (cursorHeap (cw_setDisposed r s)) = length (cursorHeap s)"
  "length (cursorHeap (cw_countOnDisposed r s)) = length (cursorHeap s)"
  by (simp_all add: removeContentWidget_def scrollListener_dispose_def cw_setDisposed_def
      cw_countOnDisposed_def cw_update_def sel_flags_def)

lemma cw_dispose_prefix_rest:
  fixes s :: "'d world" and r :: nat
  defines "s3 \<equiv> cw_countOnDisposed r (cw_setDisposed r
            (if cw_scrollListener (cursorHeap (removeContentWidget r s) ! r)
             then scrollListener_dispose r (removeContentWidget r s)
             else removeContentWidget r s))"
  shows "cursorWidgets s3 = cursorWidgets s" "sel_flags s3 = sel_flags s"
    "same_timers s s3" "length (cursorHeap s3) = length (cursorHeap s)"
proof -
  show "cursorWidgets s3 = cursorWidgets s" "sel_flags s3 = sel_flags s"
    "length (cursorHeap s3) = length (cursorHeap s)"
    by (simp_all add: s3_def cw_dispose_steps_rest)
  have "same_timers s (if cw_scrollListener (cursorHeap (removeContentWidget r s) ! r)
             then scrollListener_dispose r (removeContentWidget r s)
             else removeContentWidget r s)"
    by (auto intro: cw_dispose_steps_same_timers
        same_timers_trans [OF cw_dispose_steps_same_timers(1) cw_dispose_steps_same_timers(2)])
  then show "same_timers s s3"
    unfolding s3_def
    by (blast intro: same_timers_trans cw_dispose_steps_same_timers)
qed

lemma cw_dispose_prefix_page_ok:
  assumes "page_ok s" "\<not> cw_isDisposed r s"
  shows "page_ok (cw_countOnDisposed r (cw_setDisposed r
            (if cw_scrollListener (cursorHeap (removeContentWidget r s) ! r)
             then scrollListener_dispose r (removeContentWidget r s)
             else removeContentWidget r s)))"
    (is "page_ok ?s3")
proof -
  have r: "r < length (cursorHeap s)" "\<not> cw_disposed (cursorHeap s ! r)"
    using assms(2) by (simp_all add: cw_isDisposed_def)
  have "flags_ok (cw_flags s ! r)"
    using assms(1) r(1) by (simp add: page_ok_def calls_ok_def list_all_length)
  then have "snd (cw_flags s ! r) = 0"
    using r by (simp add: flags_ok_def cw_flags_def)
  then have "list_all flags_ok (cw_flags ?s3)"
    using assms(1) unfolding cw_dispose_prefix_flags [OF assms(2)]
    by (intro list_all_update) (simp_all add: page_ok_def calls_ok_def flags_ok_def)
  then have "calls_ok ?s3"
    using assms(1) by (simp add: calls_ok_def page_ok_def cw_dispose_prefix_rest)
  moreover have "registry_ok ?s3"
    using assms(1) by (simp add: registry_ok_def page_ok_def cw_dispose_prefix_rest)
  moreover have "timers_ok ?s3"
    using assms(1) same_timers_ok [OF cw_dispose_prefix_rest(3), of r s]
    by (simp add: page_ok_def)
  ultimately show ?thesis by (simp add: page_ok_def)
qed

lemma delete_cursor_page_ok:
  "page_ok s \<Longrightarrow> page_ok (s\<lparr>cursorWidgets := (cursorWidgets s)(i := None)\<rparr>)"
  by (simp add: page_ok_def registry_ok_def calls_ok_def timers_ok_def cw_flags_def
      sel_flags_def cw_hideTimers_def)

lemma removeCursor_cw_dispose_page_ok:
  "page_ok (s :: 'd world) \<longrightarrow> page_ok (removeCursor i s)"
  "page_ok (s' :: 'd world) \<longrightarrow> page_ok (cw_dispose r s')"
proof (induction i s and r s' rule: removeCursor_cw_dispose.induct)
  case (1 ident s)
  show ?case
  proof
    assume ok: "page_ok s"
    have "page_ok (case cursorWidgets s ident of
                     None \<Rightarrow> s
                   | Some r \<Rightarrow> if \<not> cw_isDisposed r s then cw_dispose r s else s)"
      using ok 1 by (simp split: option.splits)
    then show "page_ok (removeCursor ident s)"
      by (subst removeCursor.simps) (simp add: Let_def delete_cursor_page_ok)
  qed
next
  case (2 r s)
  show ?case
  proof (cases "cw_isDisposed r s")
    case True
    then show ?thesis by (simp add: cw_dispose.simps)
  next
    case False
    show ?thesis
    proof
      assume ok: "page_ok s"
      show "page_ok (cw_dispose r s)"
        using 2 [OF False refl refl refl] cw_dispose_prefix_page_ok [OF ok False] False
        by (subst cw_dispose.simps) (simp add: Let_def)
    qed
  qed
qed

lemma sel_update_cursor:
  "cursorWidgets (sel_update r f s) = cursorWidgets s"
  "cursorHeap (sel_update r f s) = cursorHeap s"
  "timers (sel_update r f s) = timers s"
  "nextTimer (sel_update r f s) = nextTimer s"
  "length (selectionHeap (sel_update r f s)) = length (selectionHeap s)"
  by (simp_all add: sel_update_def)

lemma sel_dispose_prefix_flags:
  assumes "\<not> sel_isDisposed r s"
  shows "sel_flags (sel_countOnDisposed r (sel_setDisposed r (sel_hide r
            (if sel_styleAttached (selectionHeap s ! r) then sel_removeStyleElement r s else s))))
       = (sel_flags s)[r := (True, Suc (snd (sel_flags s ! r)))]"
  using assms
  by (simp add: sel_isDisposed_def sel_countOnDisposed_def sel_setDisposed_def sel_hide_def
      sel_removeStyleElement_def sel_update_def sel_flags_def map_update)

lemma sel_dispose_prefix_rest:
  fixes s :: "'d world" and r :: nat
  defines "s4 \<equiv> sel_countOnDisposed r (sel_setDisposed r (sel_hide r
            (if sel_styleAttached (selectionHeap s ! r) then sel_removeStyleElement r s else s)))"
  shows "cursorWidgets s4 = cursorWidgets s" "cursorHeap s4 = cursorHeap s"
    "timers s4 = timers s" "nextTimer s4 = nextTimer s"
  by (simp_all add: s4_def sel_countOnDisposed_def sel_setDisposed_def sel_hide_def
      sel_removeStyleElement_def sel_update_cursor)

lemma sel_dispose_prefix_page_ok:
  assumes "page_ok s" "\<not> sel_isDisposed r s"
  shows "page_ok (sel_countOnDisposed r (sel_setDisposed r (sel_hide r
            (if sel_styleAttached (selectionHeap s ! r) then sel_removeStyleElement r s else s))))"
    (is "page_ok ?s4")
proof -
  have r: "r < length (selectionHeap s)" "\<not> sel_disposed (selectionHeap s ! r)"
    using assms(2) by (simp_all add: sel_isDisposed_def)
  have "flags_ok (sel_flags s ! r)"
    using assms(1) r(1) by (simp add: page_ok_def calls_ok_def list_all_length)
  then have "snd (sel_flags s ! r) = 0"
    using r by (simp add: flags_ok_def sel_flags_def)
  then have "list_all flags_ok (sel_flags ?s4)"
    using assms(1) unfolding sel_dispose_prefix_flags [OF assms(2)]
    by (intro list_all_update) (simp_all add: page_ok_def calls_ok_def flags_ok_def)
  then show ?thesis
    using assms(1)
    by (simp add: page_ok_def calls_ok_def registry_ok_def timers_ok_def cw_flags_def
        cw_hideTimers_def sel_dispose_prefix_rest)
qed

lemma removeSelection_sel_dispose_page_ok:
  "page_ok (s :: 'd world) \<longrightarrow> page_ok (removeSelection i s)"
  "page_ok (s' :: 'd world) \<longrightarrow> page_ok (sel_dispose r s')"
proof (induction i s and r s' rule: removeSelection_sel_dispose.induct)
  case (1 ident s)
  then show ?case
    by (subst removeSelection.simps) (simp split: option.splits)
next
  case (2 r s)
  show ?case
  proof (cases "sel_isDisposed r s")
    case True
    then show ?thesis by (simp add: sel_dispose.simps)
  next
    case False
    show ?thesis
    proof
      assume ok: "page_ok s"
      show "page_ok (sel_dispose r s)"
        using 2 [OF False refl refl refl] sel_dispose_prefix_page_ok [OF ok False] False
        by (subst sel_dispose.simps) (simp add: Let_def)
    qed
  qed
qed

section \<open>Every event keeps the page in order\<close>

lemma cw_calls_page_ok:
  "page_ok s \<Longrightarrow> r < length (cursorHeap s) \<Longrightarrow> page_ok (cw_setPosition pos r s)"
  "page_ok s \<Longrightarrow> r < length (cursorHeap s) \<Longrightarrow> page_ok (cw_setOffset offset r s)"
  "page_ok s \<Longrightarrow> page_ok (cw_hide r s)"
  "page_ok s \<Longrightarrow> page_ok (cw_show r s)"
  "page_ok s \<Longrightarrow> page_ok (cw_setPositionWithModelContentChange c r s)"
  by (simp_all add: page_ok_def cw_setPosition_timers_ok cw_setOffset_timers_ok
      same_overlays_ok [OF cw_setPosition_same_overlays]
      same_overlays_ok [OF cw_setOffset_same_overlays]
      same_overlays_ok [OF cw_hide_same(1)] same_timers_ok [OF cw_hide_same(2)]
      same_overlays_ok [OF cw_show_same(1)] same_timers_ok [OF cw_show_same(2)]
      same_overlays_ok [OF cw_setPositionWithModelContentChange_same(1)]
      same_timers_ok [OF cw_setPositionWithModelContentChange_same(2)])

lemma setCursorPosition_page_ok:
  assumes "page_ok s"
  shows "page_ok (setCursorPosition u pos s)"
proof (cases "cursorWidgets s u")
  case None
  then show ?thesis using assms by (simp add: setCursorPosition_def)
next
  case (Some r)
  then have "r < length (cursorHeap s)"
    using assms by (simp add: page_ok_def registry_ok_def)
  then show ?thesis
    using assms Some by (simp add: setCursorPosition_def cw_calls_page_ok)
qed

lemma setCursorOffset_page_ok:
  assumes "page_ok s"
  shows "page_ok (setCursorOffset u offset s)"
proof (cases "cursorWidgets s u")
  case None
  then show ?thesis using assms by (simp add: setCursorOffset_def)
next
  case (Some r)
  then have "r < length (cursorHeap s)"
    using assms by (simp add: page_ok_def registry_ok_def)
  then show ?thesis
    using assms Some by (simp add: setCursorOffset_def cw_calls_page_ok)
qed

lemma quiet_page_ok:
  "page_ok s \<Longrightarrow> page_ok (sendMessage m s)"
  "page_ok s \<Longrightarrow> page_ok (sendCodeSnippet e s)"
  "page_ok s \<Longrightarrow> page_ok (executeEdits u rng txt s)"
  "page_ok s \<Longrightarrow> page_ok (showCursor u s)"
  "page_ok s \<Longrightarrow> page_ok (hideCursor u s)"
  "page_ok s \<Longrightarrow> page_ok (setSelectionOffsets u a b s)"
  "page_ok s \<Longrightarrow> page_ok (setSelectionPositions u p q s)"
  "page_ok s \<Longrightarrow> page_ok (showSelection u s)"
  "page_ok s \<Longrightarrow> page_ok (hideSelection u s)"
  "page_ok s \<Longrightarrow> page_ok (sel_setOffsets a b r s)"
  "page_ok s \<Longrightarrow> page_ok (sel_setPositions p q r s)"
  "page_ok s \<Longrightarrow> page_ok (sel_show r s)"
  "page_ok s \<Longrightarrow> page_ok (sel_hide r s)"
  "page_ok s \<Longrightarrow> page_ok (updateSelection u es s)"
  by (erule page_ok_same [rotated 2],
      rule sendMessage_same sendCodeSnippet_same executeEdits_same cursor_manager_same
        selection_manager_same sel_setOffsets_same sel_setPositions_same sel_show_same
        sel_hide_same updateSelection_same,
      rule sendMessage_same sendCodeSnippet_same executeEdits_same cursor_manager_same
        selection_manager_same sel_setOffsets_same sel_setPositions_same sel_show_same
        sel_hide_same updateSelection_same)+

lemma updateContent_change_page_ok: "page_ok s \<Longrightarrow> page_ok (updateContent_change u s c)"
  by (simp add: updateContent_change_def Let_def quiet_page_ok setCursorPosition_page_ok
      split: option.splits)

lemma updateContent_page_ok: "page_ok s \<Longrightarrow> page_ok (updateContent u e s)"
proof -
  have "page_ok s \<Longrightarrow> page_ok (foldl (updateContent_change u) s cs)" for cs
    by (induction cs arbitrary: s) (simp_all add: updateContent_change_page_ok)
  then show "page_ok s \<Longrightarrow> page_ok (updateContent u e s)"
    by (simp add: updateContent_def split: option.splits)
qed

lemma updateCursorPosition_page_ok: "page_ok s \<Longrightarrow> page_ok (updateCursorPosition u e s)"
  by (simp add: updateCursorPosition_def Let_def setCursorOffset_page_ok split: option.splits)

lemma addOverlays_page_ok: "page_ok s \<Longrightarrow> page_ok (addOverlays user s)"
  by (simp add: addOverlays_def Let_def addCursor_page_ok addSelection_page_ok)

lemma receiver_page_ok: "page_ok s \<Longrightarrow> page_ok (receiver msg s)"
  by (simp add: receiver_def Let_def addOverlays_page_ok updateContent_page_ok
      updateCursorPosition_page_ok quiet_page_ok split: option.splits IMessageData.splits)

lemma onMemberLeft_page_ok: "page_ok s \<Longrightarrow> page_ok (onMemberLeft m s)"
  by (simp add: onMemberLeft_def Let_def removeCursor_cw_dispose_page_ok
      removeSelection_sel_dispose_page_ok)

lemma scrolled_same: "foldl (\<lambda>s' r. cw_updateTooltipPosition r s') s rs = s"
  by (induction rs) (simp_all add: cw_updateTooltipPosition_def)

lemma small_steps_page_ok:
  "page_ok s \<Longrightarrow> page_ok (s\<lparr>getModel := m\<rparr>)"
  "page_ok s \<Longrightarrow> page_ok (dispose s)"
  "page_ok s \<Longrightarrow> page_ok (timerFired t s)"
  by (simp_all add: dispose_def page_ok_def registry_ok_def calls_ok_def timers_ok_def
      cw_flags_def sel_flags_def cw_hideTimers_def timerFired_timers_ok [unfolded timers_ok_def cw_hideTimers_def]
      same_overlays_ok [OF timerFired_same_overlays, unfolded registry_ok_def calls_ok_def cw_flags_def sel_flags_def])

lemma step_page_ok: "page_ok s \<Longrightarrow> page_ok (step s ev)"
  by (cases ev)
    (simp_all add: onMemberJoined_def addOverlays_page_ok onMemberLeft_page_ok receiver_page_ok
      editorCursorPositionChangeListener_def editorCursorSelectionChangedListener_def
      quiet_page_ok scrolled_same small_steps_page_ok addCursor_page_ok addSelection_page_ok
      removeCursor_cw_dispose_page_ok removeSelection_sel_dispose_page_ok
      setCursorPosition_page_ok setCursorOffset_page_ok cw_calls_page_ok)

lemma run_page_ok: "page_ok s \<Longrightarrow> page_ok (run evs s)"
  unfolding run_def by (induction evs arbitrary: s) (simp_all add: step_page_ok)

lemma initial_page_ok: "initial s \<Longrightarrow> page_ok s"
  by (simp add: initial_def page_ok_def registry_ok_def calls_ok_def timers_ok_def
      cw_flags_def sel_flags_def cw_hideTimers_def timers_okIn_empty)

section \<open>Disposal happens once\<close>

lemma cw_isDisposed_flags:
  "cw_isDisposed x s = (length (cw_flags s) \<le> x \<or> fst (cw_flags s ! x))"
  by (cases "x < length (cursorHeap s)") (simp_all add: cw_isDisposed_def cw_flags_def)

lemma sel_isDisposed_flags:
  "sel_isDisposed x s = (length (sel_flags s) \<le> x \<or> fst (sel_flags s ! x))"
  by (cases "x < length (selectionHeap s)") (simp_all add: sel_isDisposed_def sel_flags_def)

lemma cw_dispose_prefix_isDisposed:
  assumes "\<not> cw_isDisposed r s"
  shows "cw_isDisposed x s \<or> x = r \<longrightarrow>
    cw_isDisposed x (cw_countOnDisposed r (cw_setDisposed r
            (if cw_scrollListener (cursorHeap (removeContentWidget r s) ! r)
             then scrollListener_dispose r (removeContentWidget r s)
             else removeContentWidget r s)))"
proof -
  have "r < length (cw_flags s)" using assms by (simp add: cw_isDisposed_def)
  then show ?thesis
    unfolding cw_isDisposed_flags cw_dispose_prefix_flags [OF assms]
    by (cases "x < length (cw_flags s)") (auto simp: nth_list_update)
qed

lemma sel_dispose_prefix_isDisposed:
  assumes "\<not> sel_isDisposed r s"
  shows "sel_isDisposed x s \<or> x = r \<longrightarrow>
    sel_isDisposed x (sel_countOnDisposed r (sel_setDisposed r (sel_hide r
            (if sel_styleAttached (selectionHeap s ! r) then sel_removeStyleElement r s else s))))"
proof -
  have "r < length (sel_flags s)" using assms by (simp add: sel_isDisposed_def)
  then show ?thesis
    unfolding sel_isDisposed_flags sel_dispose_prefix_flags [OF assms]
    by (cases "x < length (sel_flags s)") (auto simp: nth_list_update)
qed

lemma cw_disposed_stays:
  "cw_isDisposed x (s :: 'd world) \<longrightarrow> cw_isDisposed x (removeCursor i s)"
  "cw_isDisposed x (s' :: 'd world) \<longrightarrow> cw_isDisposed x (cw_dispose r s')"
proof (induction i s and r s' rule: removeCursor_cw_dispose.induct)
  case (1 ident s)
  show ?case
  proof
    assume d: "cw_isDisposed x s"
    have "cw_isDisposed x (case cursorWidgets s ident of
                     None \<Rightarrow> s
                   | Some r \<Rightarrow> if \<not> cw_isDisposed r s then cw_dispose r s else s)"
      using d 1 by (simp split: option.splits)
    then show "cw_isDisposed x (removeCursor ident s)"
      by (subst removeCursor.simps) (simp add: Let_def cw_isDisposed_def)
  qed
next
  case (2 r s)
  show ?case
  proof (cases "cw_isDisposed r s")
    case True
    then show ?thesis by (simp add: cw_dispose.simps)
  next
    case False
    show ?thesis
      using 2 [OF False refl refl refl] cw_dispose_prefix_isDisposed [OF False, of x] False
      by (subst cw_dispose.simps) (simp add: Let_def)
  qed
qed

lemma cw_dispose_disposes: "cw_isDisposed r (cw_dispose r s)"
proof (cases "cw_isDisposed r s")
  case True
  then show ?thesis by (simp add: cw_dispose.simps)
next
  case False
  let ?s3 = "cw_countOnDisposed r (cw_setDisposed r
            (if cw_scrollListener (cursorHeap (removeContentWidget r s) ! r)
             then scrollListener_dispose r (removeContentWidget r s)
             else removeContentWidget r s))"
  have "cw_isDisposed r ?s3"
    using cw_dispose_prefix_isDisposed [OF False, of r] by simp
  then have "cw_isDisposed r (removeCursor i ?s3)" for i
    using cw_disposed_stays(1) by blast
  then show ?thesis
    using False by (subst cw_dispose.simps) (simp add: Let_def)
qed

lemma sel_disposed_stays:
  "sel_isDisposed x (s :: 'd world) \<longrightarrow> sel_isDisposed x (removeSelection i s)"
  "sel_isDisposed x (s' :: 'd world) \<longrightarrow> sel_isDisposed x (sel_dispose r s')"
proof (induction i s and r s' rule: removeSelection_sel_dispose.induct)
  case (1 ident s)
  then show ?case
    by (subst removeSelection.simps) (simp split: option.splits)
next
  case (2 r s)
  show ?case
  proof (cases "sel_isDisposed r s")
    case True
    then show ?thesis by (simp add: sel_dispose.simps)
  next
    case False
    show ?thesis
      using 2 [OF False refl refl refl] sel_dispose_prefix_isDisposed [OF False, of x] False
      by (subst sel_dispose.simps) (simp add: Let_def)
  qed
qed

lemma sel_dispose_disposes: "sel_isDisposed r (sel_dispose r s)"
proof (cases "sel_isDisposed r s")
  case True
  then show ?thesis by (simp add: sel_dispose.simps)
next
  case False
  let ?s4 = "sel_countOnDisposed r (sel_setDisposed r (sel_hide r
            (if sel_styleAttached (selectionHeap s ! r) then sel_removeStyleElement r s else s)))"
  have "sel_isDisposed r ?s4"
    using sel_dispose_prefix_isDisposed [OF False, of r] by simp
  then have "sel_isDisposed r (removeSelection i ?s4)" for i
    using sel_disposed_stays(1) by blast
  then show ?thesis
    using False by (subst sel_dispose.simps) (simp add: Let_def)
qed

text \<open>
  Claim C7. On every page that a sequence of events leads to from a freshly constructed
  one, each cursor widget and each selection has had its \<^verbatim>\<open>onDisposed\<close> called exactly
  once if it is disposed and never otherwise, so at most once in its life. On any page,
  a second \<^verbatim>\<open>dispose\<close> changes nothing, and the position, show and hide methods (and a
  timer that fires) leave the disposed flag and the number of callback calls of every
  overlay as they were; all of them are total functions, so none throws.
\<close>

theorem dispose_once:
  "initial s \<Longrightarrow>
   list_all (\<lambda>w. cw_onDisposedCalls w = (if cw_disposed w then 1 else 0))
     (cursorHeap (run evs s))
   \<and> list_all (\<lambda>w. sel_onDisposedCalls w = (if sel_disposed w then 1 else 0))
       (selectionHeap (run evs s))
   \<and> cw_dispose r (cw_dispose r t) = cw_dispose r t
   \<and> sel_dispose r (sel_dispose r t) = sel_dispose r t
   \<and> cw_flags (cw_setPosition pos r t) = cw_flags t
   \<and> cw_flags (cw_setOffset offset r t) = cw_flags t
   \<and> cw_flags (cw_setPositionWithModelContentChange c r t) = cw_flags t
   \<and> cw_flags (cw_show r t) = cw_flags t
   \<and> cw_flags (cw_hide r t) = cw_flags t
   \<and> cw_flags (timerFired k t) = cw_flags t
   \<and> sel_flags (sel_setPositions a b r t) = sel_flags t
   \<and> sel_flags (sel_setOffsets m n r t) = sel_flags t
   \<and> sel_flags (sel_show r t) = sel_flags t
   \<and> sel_flags (sel_hide r t) = sel_flags t"
proof -
  assume "initial s"
  then have "page_ok (run evs s)"
    by (intro run_page_ok initial_page_ok)
  then have "calls_ok (run evs s)"
    by (simp add: page_ok_def)
  then have calls:
    "list_all (\<lambda>w. cw_onDisposedCalls w = (if cw_disposed w then 1 else 0))
       (cursorHeap (run evs s))"
    "list_all (\<lambda>w. sel_onDisposedCalls w = (if sel_disposed w then 1 else 0))
       (selectionHeap (run evs s))"
    by (simp_all add: calls_ok_def cw_flags_def sel_flags_def flags_ok_def list_all_iff)
  have twice: "cw_dispose r (cw_dispose r t) = cw_dispose r t"
    "sel_dispose r (sel_dispose r t) = sel_dispose r t"
    using cw_dispose_disposes [of r t] sel_dispose_disposes [of r t]
    by (subst cw_dispose.simps, simp, subst sel_dispose.simps, simp)
  have cw: "cw_flags (cw_setPosition pos r t) = cw_flags t"
    "cw_flags (cw_setOffset offset r t) = cw_flags t"
    "cw_flags (cw_setPositionWithModelContentChange c r t) = cw_flags t"
    "cw_flags (cw_show r t) = cw_flags t"
    "cw_flags (cw_hide r t) = cw_flags t"
    "cw_flags (timerFired k t) = cw_flags t"
    using cw_setPosition_same_overlays [of t pos r] cw_setOffset_same_overlays [of t offset r]
      cw_setPositionWithModelContentChange_same(1) [of t c r] cw_show_same(1) [of t r]
      cw_hide_same(1) [of t r] timerFired_same_overlays [of t k]
    by (simp_all add: same_overlays_def)
  have sel: "sel_flags (sel_setPositions a b r t) = sel_flags t"
    "sel_flags (sel_setOffsets m n r t) = sel_flags t"
    "sel_flags (sel_show r t) = sel_flags t"
    "sel_flags (sel_hide r t) = sel_flags t"
    using sel_setPositions_same(1) [of t a b r] sel_setOffsets_same(1) [of t m n r]
      sel_show_same(1) [of t r] sel_hide_same(1) [of t r]
    by (simp_all add: same_overlays_def)
  show ?thesis using calls twice cw sel by simp
qed

text \<open>
  A cursor widget and a selection of user A are each disposed twice and used afterwards:
  each has had its callback called once.
\<close>

theorem dispose_once_witness:
  "let s = contentManagerOn (linePage ''hello'' 0) True;
       user = \<lparr>uid = ''A'', color = ''red'', label = ''Alice''\<rparr>;
       evs = [Call_addCursor user, Call_cw_setPosition 0 \<lparr>lineNumber = 1, column = 2\<rparr>,
              Call_cw_dispose 0, Call_cw_dispose 0, Call_cw_show 0, TimerFired 0,
              Call_addSelection user, Call_sel_dispose 0, Call_sel_dispose 0, Call_sel_show 0]
   in initial s
      \<and> list_all (\<lambda>w. cw_onDisposedCalls w = (if cw_disposed w then 1 else 0))
            (cursorHeap (run evs s))
      \<and> cw_flags (run evs s) = [(True, 1)]
      \<and> sel_flags (run evs s) = [(True, 1)]"
proof -
  let ?s = "contentManagerOn (linePage ''hello'' 0) True"
  let ?user = "\<lparr>uid = ''A'', color = ''red'', label = ''Alice''\<rparr>"
  let ?evs = "[Call_addCursor ?user, Call_cw_setPosition 0 \<lparr>lineNumber = 1, column = 2\<rparr>,
              Call_cw_dispose 0, Call_cw_dispose 0, Call_cw_show 0, TimerFired 0,
              Call_addSelection ?user, Call_sel_dispose 0, Call_sel_dispose 0, Call_sel_show 0]"
  have i: "initial ?s"
    by (simp add: initial_def contentManagerOn_eq linePage_def editorPage_def)
  have flags: "cw_flags (run ?evs ?s) = [(True, 1)] \<and> sel_flags (run ?evs ?s) = [(True, 1)]"
    by (simp add: run_def contentManagerOn_eq linePage_def editorPage_def
      addCursor_def new_RemoteCursorWidget_def onDidScrollChange_def addContentWidget_def
      cw_setPosition_def cw_updatePosition_def layoutContentWidget_def cw_update_def
      setTimeout_def cw_dispose.simps removeCursor.simps cw_isDisposed_def
      removeContentWidget_def scrollListener_dispose_def cw_setDisposed_def
      cw_countOnDisposed_def cw_show_def timerFired_def clearTimeout_def cw_showTooltip_def
      cw_updateTooltipPosition_def cw_setTooltipVisible_def
      addSelection_def new_RemoteSelection_def sel_dispose.simps removeSelection.simps
      sel_isDisposed_def sel_removeStyleElement_def sel_hide_def sel_setDisposed_def
      sel_countOnDisposed_def sel_update_def sel_show_def sel_render_def
      deltaDecorations_def cw_flags_def sel_flags_def Let_def)
  show ?thesis
    using dispose_once [OF i, THEN conjunct1, of ?evs] i flags by (simp add: Let_def)
qed

section \<open>The auto-hide timer of the tooltip\<close>

lemma delete_cursor_same_timers:
  "same_timers s s' \<Longrightarrow> same_timers s (s'\<lparr>cursorWidgets := m\<rparr>)"
  by (simp add: same_timers_def cw_hideTimers_def)

lemma removeCursor_cw_dispose_same_timers:
  "same_timers (s :: 'd world) (removeCursor i s)"
  "same_timers (s' :: 'd world) (cw_dispose r s')"
proof (induction i s and r s' rule: removeCursor_cw_dispose.induct)
  case (1 ident s)
  have "same_timers s (case cursorWidgets s ident of
                     None \<Rightarrow> s
                   | Some r \<Rightarrow> if \<not> cw_isDisposed r s then cw_dispose r s else s)"
    using 1 by (simp split: option.splits)
  then show ?case
    by (subst removeCursor.simps) (simp add: Let_def delete_cursor_same_timers)
next
  case (2 r s)
  show ?case
  proof (cases "cw_isDisposed r s")
    case True
    then show ?thesis by (simp add: cw_dispose.simps)
  next
    case False
    show ?thesis
      using same_timers_trans [OF cw_dispose_prefix_rest(3) 2 [OF False refl refl refl]] False
      by (subst cw_dispose.simps) (simp add: Let_def)
  qed
qed

text \<open>
  Claim C9, as the program has it. On every page that a sequence of events leads to
  from a freshly constructed one, a cursor widget has at most one pending auto-hide
  timer. \<^verbatim>\<open>showTooltip\<close> on such a page leaves exactly one, the new one: a timer that
  was pending has been cleared, not kept beside it. \<^verbatim>\<open>dispose\<close> of a widget (and
  \<^verbatim>\<open>removeCursor\<close>) leaves the pending timers and the stored handles as they are, on
  any page; a timer callback changes neither the disposed flag nor the number of
  \<^verbatim>\<open>onDisposed\<close> calls of any widget.
\<close>

theorem hide_timer_reset_not_cancelled:
  "initial s \<Longrightarrow>
   length (pendingHide r (run evs s)) \<le> 1
   \<and> (r < length (cursorHeap (run evs s)) \<longrightarrow>
        pendingHide r (cw_showTooltip r (run evs s)) = [nextTimer (run evs s)])
   \<and> timers (cw_dispose r t) = timers t
   \<and> cw_hideTimers (cw_dispose r t) = cw_hideTimers t
   \<and> timers (removeCursor u t) = timers t
   \<and> cw_flags (timerFired k t) = cw_flags t"
proof -
  assume "initial s"
  then have "page_ok (run evs s)"
    by (intro run_page_ok initial_page_ok)
  then have ok: "timers_ok (run evs s)"
    by (simp add: page_ok_def)
  then have one: "length (pendingHide r (run evs s)) \<le> 1"
    unfolding pendingHide_def timers_ok_def by (rule timers_okIn_pending_le_1)
  have reset: "pendingHide r (cw_showTooltip r (run evs s)) = [nextTimer (run evs s)]"
    if r: "r < length (cursorHeap (run evs s))"
  proof -
    have "timers_ok (cw_showTooltip r (run evs s))"
      using ok r by (rule cw_showTooltip_timers_ok)
    then show ?thesis
      using r
      by (simp add: timers_ok_def timers_okIn_def pendingHide_def cw_showTooltip_timers(3))
  qed
  have "same_timers t (cw_dispose r t)" "same_timers t (removeCursor u t)"
    by (rule removeCursor_cw_dispose_same_timers)+
  then have kept: "timers (cw_dispose r t) = timers t"
    "cw_hideTimers (cw_dispose r t) = cw_hideTimers t" "timers (removeCursor u t) = timers t"
    by (simp_all add: same_timers_def)
  have "cw_flags (timerFired k t) = cw_flags t"
    using timerFired_same_overlays [of t k] by (simp add: same_overlays_def)
  with one reset kept show ?thesis by simp
qed

text \<open>
  User A's widget shows its tooltip (timer 1 is the pending auto-hide timer) and its
  position is set again; when the tooltip is shown again, timer 1 is gone and the new
  timer 3 is the only pending one.
\<close>

theorem hide_timer_reset_not_cancelled_witness:
  "let s = contentManagerOn (linePage ''hello'' 0) True;
       user = \<lparr>uid = ''A'', color = ''red'', label = ''Alice''\<rparr>;
       evs = [Call_addCursor user, Call_cw_setPosition 0 \<lparr>lineNumber = 1, column = 2\<rparr>,
              TimerFired 0, Call_cw_setPosition 0 \<lparr>lineNumber = 1, column = 3\<rparr>]
   in initial s
      \<and> 0 < length (cursorHeap (run evs s))
      \<and> pendingHide 0 (run evs s) = [1]
      \<and> pendingHide 0 (cw_showTooltip 0 (run evs s)) = [3]"
proof -
  let ?s = "contentManagerOn (linePage ''hello'' 0) True"
  let ?user = "\<lparr>uid = ''A'', color = ''red'', label = ''Alice''\<rparr>"
  let ?evs = "[Call_addCursor ?user, Call_cw_setPosition 0 \<lparr>lineNumber = 1, column = 2\<rparr>,
              TimerFired 0, Call_cw_setPosition 0 \<lparr>lineNumber = 1, column = 3\<rparr>]"
  have i: "initial ?s"
    by (simp add: initial_def contentManagerOn_eq linePage_def editorPage_def)
  have e: "0 < length (cursorHeap (run ?evs ?s)) \<and> pendingHide 0 (run ?evs ?s) = [1]
      \<and> nextTimer (run ?evs ?s) = 3"
    by (simp add: run_def contentManagerOn_eq linePage_def editorPage_def
      addCursor_def new_RemoteCursorWidget_def onDidScrollChange_def addContentWidget_def
      cw_setPosition_def cw_updatePosition_def layoutContentWidget_def cw_update_def
      setTimeout_def timerFired_def clearTimeout_def cw_showTooltip_def
      cw_updateTooltipPosition_def cw_setTooltipVisible_def pendingHide_def pendingHideIn_def
      Let_def)
  show ?thesis
    using hide_timer_reset_not_cancelled [OF i, THEN conjunct2, THEN conjunct1, of 0 ?evs] i e
    by (simp add: Let_def)
qed

text \<open>
  The claim as stated fails: the widget is disposed while its auto-hide timer 1 is
  pending; the timer is still pending afterwards, and when it fires its callback sets
  the opacity of the disposed widget's tooltip and clears the stored handle.
\<close>

theorem hide_timer_survives_dispose_counterexample:
  "let s = contentManagerOn (linePage ''hello'' 0) True;
       user = \<lparr>uid = ''A'', color = ''red'', label = ''Alice''\<rparr>;
       t = run [Call_addCursor user, Call_cw_setPosition 0 \<lparr>lineNumber = 1, column = 2\<rparr>,
                TimerFired 0] s;
       t' = cw_dispose 0 t
   in pendingHide 0 t = [1]
      \<and> cw_disposed (cursorHeap t' ! 0)
      \<and> pendingHide 0 t' = [1]
      \<and> map (map_option opacity \<circ> cw_tooltipNode) (cursorHeap t') = [Some ''1.0'']
      \<and> map (map_option opacity \<circ> cw_tooltipNode) (cursorHeap (timerFired 1 t')) = [Some ''0'']
      \<and> map cw_hideTimer (cursorHeap t') = [Some 1]
      \<and> map cw_hideTimer (cursorHeap (timerFired 1 t')) = [None]"
proof -
  let ?s = "contentManagerOn (linePage ''hello'' 0) True"
  let ?user = "\<lparr>uid = ''A'', color = ''red'', label = ''Alice''\<rparr>"
  let ?t = "run [Call_addCursor ?user, Call_cw_setPosition 0 \<lparr>lineNumber = 1, column = 2\<rparr>,
                TimerFired 0] ?s"
  note defs = run_def contentManagerOn_eq linePage_def editorPage_def
      addCursor_def new_RemoteCursorWidget_def onDidScrollChange_def addContentWidget_def
      cw_setPosition_def cw_updatePosition_def layoutContentWidget_def cw_update_def
      setTimeout_def timerFired_def clearTimeout_def cw_showTooltip_def
      cw_updateTooltipPosition_def cw_setTooltipVisible_def pendingHide_def pendingHideIn_def
      cw_dispose.simps removeCursor.simps cw_isDisposed_def removeContentWidget_def
      scrollListener_dispose_def cw_setDisposed_def cw_countOnDisposed_def
      cw_hideTimerCallback_def Let_def
  have "pendingHide 0 ?t = [1]"
    by (simp add: defs)
  moreover have "cw_disposed (cursorHeap (cw_dispose 0 ?t) ! 0)"
    by (simp add: defs)
  moreover have "pendingHide 0 (cw_dispose 0 ?t) = [1]"
    by (simp add: defs)
  moreover have "map (map_option opacity \<circ> cw_tooltipNode) (cursorHeap (cw_dispose 0 ?t))
      = [Some ''1.0'']"
    by (simp add: defs)
  moreover have "map (map_option opacity \<circ> cw_tooltipNode)
      (cursorHeap (timerFired 1 (cw_dispose 0 ?t))) = [Some ''0'']"
    by (simp add: defs)
  moreover have "map cw_hideTimer (cursorHeap (cw_dispose 0 ?t)) = [Some 1]"
    by (simp add: defs)
  moreover have "map cw_hideTimer (cursorHeap (timerFired 1 (cw_dispose 0 ?t))) = [None]"
    by (simp add: defs)
  ultimately show ?thesis
    by (simp add: Let_def)
qed

section \<open>The echo of a remote edit\<close>

lemma codeSnippets_simps [simp]:
  "codeSnippets [] = []"
  "codeSnippets (xs @ ys) = codeSnippets xs @ codeSnippets ys"
  "codeSnippets (CodeSnippet e # xs) = e # codeSnippets xs"
  "codeSnippets (CursorPosition p # xs) = codeSnippets xs"
  "codeSnippets (CursorSelection q # xs) = codeSnippets xs"
  "codeSnippets (OtherMessage t # xs) = codeSnippets xs"
  by (simp_all add: codeSnippets_def)

lemma raiseCursorEvents_codeSnippets:
  "codeSnippets (sent (foldl raiseCursorEvent s evs)) = codeSnippets (sent s)"
  by (induction evs arbitrary: s)
    (simp_all add: raiseCursorEvent_def editorCursorPositionChangeListener_def
      editorCursorSelectionChangedListener_def sendMessage_def split: cursorEvent.splits)

lemma setCursorPosition_frame:
  "getModel (setCursorPosition u pos s) = getModel s"
  "sent (setCursorPosition u pos s) = sent s"
  "channel (setCursorPosition u pos s) = channel s"
  "contentSubscription (setCursorPosition u pos s) = contentSubscription s"
  "cursorManager (setCursorPosition u pos s) = cursorManager s"
  "selectionManager (setCursorPosition u pos s) = selectionManager s"
  "cursorWidgets (setCursorPosition u pos s) = cursorWidgets s"
  "applyEdit (setCursorPosition u pos s) = applyEdit s"
  "getPositionAt (setCursorPosition u pos s) = getPositionAt s"
  "getOffsetAt (setCursorPosition u pos s) = getOffsetAt s"
  "dropsEdit (setCursorPosition u pos s) = dropsEdit s"
  "length (cursorHeap (setCursorPosition u pos s)) = length (cursorHeap s)"
  by (simp_all add: setCursorPosition_def cw_setPosition_def cw_updatePosition_def
      layoutContentWidget_def cw_update_def setTimeout_def Let_def split: option.splits)

lemma executeEdits_frame:
  "channel (executeEdits u rng txt s) = channel s"
  "contentSubscription (executeEdits u rng txt s) = contentSubscription s"
  "cursorManager (executeEdits u rng txt s) = cursorManager s"
  "selectionManager (executeEdits u rng txt s) = selectionManager s"
  "cursorWidgets (executeEdits u rng txt s) = cursorWidgets s"
  "cursorHeap (executeEdits u rng txt s) = cursorHeap s"
  "applyEdit (executeEdits u rng txt s) = applyEdit s"
  "getPositionAt (executeEdits u rng txt s) = getPositionAt s"
  "getOffsetAt (executeEdits u rng txt s) = getOffsetAt s"
  "dropsEdit (executeEdits u rng txt s) = dropsEdit s"
  by (simp_all add: executeEdits_def sendCodeSnippet_def sendMessage_def Let_def
      raiseCursorEvents_frame split: option.splits)

lemma executeEdits_model:
  "getModel s = Some model \<Longrightarrow>
   getModel (executeEdits u rng txt s)
     = Some (if dropsEdit s (content model) rng txt then model
             else \<lparr>content = applyEdit s (content model) rng txt,
                   getVersionId = getVersionId model + 1\<rparr>)"
  by (simp add: executeEdits_def sendCodeSnippet_def sendMessage_def Let_def
      raiseCursorEvents_frame)

lemma executeEdits_codeSnippets:
  "getModel s = Some model \<Longrightarrow>
   codeSnippets (sent (executeEdits u rng txt s))
     = codeSnippets (sent s)
       @ (if channel s \<and> contentSubscription s \<and> \<not> dropsEdit s (content model) rng txt
          then [\<lparr>changes = [contentChange s (content model) rng txt],
                 versionId = getVersionId model + 1\<rparr>]
          else [])"
  by (simp add: executeEdits_def sendCodeSnippet_def sendMessage_def Let_def
      raiseCursorEvents_codeSnippets)

lemma updateContent_change_frame:
  "channel (updateContent_change u s c) = channel s"
  "contentSubscription (updateContent_change u s c) = contentSubscription s"
  "cursorManager (updateContent_change u s c) = cursorManager s"
  "selectionManager (updateContent_change u s c) = selectionManager s"
  "cursorWidgets (updateContent_change u s c) = cursorWidgets s"
  "applyEdit (updateContent_change u s c) = applyEdit s"
  "getPositionAt (updateContent_change u s c) = getPositionAt s"
  "getOffsetAt (updateContent_change u s c) = getOffsetAt s"
  "dropsEdit (updateContent_change u s c) = dropsEdit s"
  "length (cursorHeap (updateContent_change u s c)) = length (cursorHeap s)"
  by (simp_all add: updateContent_change_def Let_def setCursorPosition_frame executeEdits_frame
      split: option.splits)

lemma updateContent_change_model:
  "getModel s = Some model \<Longrightarrow>
   getModel (updateContent_change u s c) = Some (modelAfterChange s model c)"
  by (simp add: updateContent_change_def Let_def setCursorPosition_frame executeEdits_frame
      executeEdits_model modelAfterChange_def dropsChange_def applyChange_def rebuiltRange_def)

lemma updateContent_change_codeSnippets:
  "getModel s = Some model \<Longrightarrow>
   codeSnippets (sent (updateContent_change u s c))
     = codeSnippets (sent s)
       @ (if channel s \<and> contentSubscription s then echoes s model [c] else [])"
  by (simp add: updateContent_change_def Let_def setCursorPosition_frame executeEdits_frame
      executeEdits_model executeEdits_codeSnippets dropsChange_def rebuiltRange_def)

lemma modelAfterChange_cong:
  "applyEdit s' = applyEdit s \<Longrightarrow> dropsEdit s' = dropsEdit s \<Longrightarrow>
   modelAfterChange s' = modelAfterChange s"
  by (simp add: modelAfterChange_def dropsChange_def applyChange_def fun_eq_iff)

lemma echoes_cong:
  "applyEdit s' = applyEdit s \<Longrightarrow> getOffsetAt s' = getOffsetAt s \<Longrightarrow>
   dropsEdit s' = dropsEdit s \<Longrightarrow> echoes s' model cs = echoes s model cs"
  by (induction cs arbitrary: model)
    (simp_all add: contentChange_def dropsChange_def modelAfterChange_cong [of s' s])


lemma foldl_updateContent_change_model:
  "getModel s = Some model \<Longrightarrow>
   getModel (foldl (updateContent_change u) s cs) = Some (foldl (modelAfterChange s) model cs)"
proof (induction cs arbitrary: s model)
  case Nil
  then show ?case by simp
next
  case (Cons c cs)
  let ?s1 = "updateContent_change u s c"
  have m1: "getModel ?s1 = Some (modelAfterChange s model c)"
    using Cons.prems by (simp add: updateContent_change_model)
  have "modelAfterChange ?s1 = modelAfterChange s"
    by (rule modelAfterChange_cong) (simp_all add: updateContent_change_frame)
  with Cons.IH [OF m1] show ?case by simp
qed

lemma foldl_updateContent_change_codeSnippets:
  "getModel s = Some model \<Longrightarrow>
   codeSnippets (sent (foldl (updateContent_change u) s cs))
     = codeSnippets (sent s)
       @ (if channel s \<and> contentSubscription s then echoes s model cs else [])"
proof (induction cs arbitrary: s model)
  case Nil
  then show ?case by simp
next
  case (Cons c cs)
  let ?s1 = "updateContent_change u s c"
  have m1: "getModel ?s1 = Some (modelAfterChange s model c)"
    using Cons.prems by (simp add: updateContent_change_model)
  have e: "echoes ?s1 (modelAfterChange s model c) cs = echoes s (modelAfterChange s model c) cs"
    by (rule echoes_cong) (simp_all add: updateContent_change_frame)
  show ?case
    using Cons.IH [OF m1] Cons.prems
    by (simp add: e updateContent_change_frame updateContent_change_codeSnippets)
qed

lemma addOverlays_frame2:
  "channel (addOverlays user s) = channel s"
  "contentSubscription (addOverlays user s) = contentSubscription s"
  "cursorManager (addOverlays user s) = cursorManager s"
  "selectionManager (addOverlays user s) = selectionManager s"
  "applyEdit (addOverlays user s) = applyEdit s"
  "getPositionAt (addOverlays user s) = getPositionAt s"
  "getOffsetAt (addOverlays user s) = getOffsetAt s"
  "dropsEdit (addOverlays user s) = dropsEdit s"
  by (simp_all add: addOverlays_def addCursor_def addSelection_def new_RemoteCursorWidget_def
      new_RemoteSelection_def onDidScrollChange_def addContentWidget_def Let_def
      split: option.splits)

lemma codeSnippets_mem:
  "CodeSnippet e \<in> set ms \<longleftrightarrow> e \<in> set (codeSnippets ms)"
  by (induction ms) (auto simp: codeSnippets_def split: IMessageData.splits)

lemma receiver_content:
  assumes "msg_uid msg = Some u" "message msg = CodeSnippet event"
    "getModel s = Some model" "getVersionId model < versionId event"
  shows "receiver msg s = foldl (updateContent_change u) (addOverlays (remoteUser u) s) (changes event)"
  using assms by (simp add: receiver_def updateContent_def Let_def addOverlays_frame)

lemma receiver_model:
  assumes "msg_uid msg = Some u" "message msg = CodeSnippet event"
    "getModel s = Some model" "getVersionId model < versionId event"
  shows "getModel (receiver msg s) = Some (foldl (modelAfterChange s) model (changes event))"
proof -
  let ?s1 = "addOverlays (remoteUser u) s"
  have m1: "getModel ?s1 = Some model"
    using assms by (simp add: addOverlays_frame)
  have "modelAfterChange ?s1 = modelAfterChange s"
    by (rule modelAfterChange_cong) (simp_all add: addOverlays_frame2)
  then show ?thesis
    unfolding receiver_content [OF assms] foldl_updateContent_change_model [OF m1] by simp
qed

lemma receiver_codeSnippets:
  assumes "msg_uid msg = Some u" "message msg = CodeSnippet event"
    "getModel s = Some model" "getVersionId model < versionId event"
  shows "codeSnippets (sent (receiver msg s))
    = codeSnippets (sent s)
      @ (if channel s \<and> contentSubscription s then echoes s model (changes event) else [])"
proof -
  let ?s1 = "addOverlays (remoteUser u) s"
  have m1: "getModel ?s1 = Some model"
    using assms by (simp add: addOverlays_frame)
  have e: "echoes ?s1 model (changes event) = echoes s model (changes event)"
    by (rule echoes_cong) (simp_all add: addOverlays_frame2)
  show ?thesis
    unfolding receiver_content [OF assms] foldl_updateContent_change_codeSnippets [OF m1]
    by (simp add: e addOverlays_frame addOverlays_frame2)
qed

text \<open>
  Claim C1, as the program has it. The receive path itself sends nothing, but every
  edit it executes makes the editor raise a content-change event, and the content
  manager's listener sends that event: its version is the version the edit produced,
  which is not less than the current one. So with a channel and a live content
  subscription, the \<^verbatim>\<open>CodeSnippet\<close> messages sent while an inbound \<^verbatim>\<open>CodeSnippet\<close> is
  applied are, in order, one for each of its changes that the editor does not drop,
  carrying the change's range and text and the local version after it. Without the
  subscription (after \<^verbatim>\<open>dispose\<close>) no \<^verbatim>\<open>CodeSnippet\<close> message is sent. Messages of the
  other types, which the editor's cursor events cause, are not counted here.
\<close>

theorem remote_edit_is_echoed:
  assumes "msg_uid msg = Some u" "message msg = CodeSnippet event"
    "getModel s = Some model" "getVersionId model < versionId event"
  shows "codeSnippets (sent (receiver msg s))
    = codeSnippets (sent s)
      @ (if channel s \<and> contentSubscription s then echoes s model (changes event) else [])"
  using assms by (rule receiver_codeSnippets)

text \<open>
  User A's edit of version 2 inserts \<open>hi\<close> on a page at version 1: one \<^verbatim>\<open>CodeSnippet\<close>
  with the same change and version 2 is sent, and none after \<^verbatim>\<open>dispose\<close>.
\<close>

theorem remote_edit_is_echoed_witness:
  "let s = contentManagerOn (linePage ''hello'' 1) True;
       c = \<lparr>change_range = Range 1 1 1 1, rangeOffset = 0, rangeLength = 0, change_text = ''hi''\<rparr>;
       event = \<lparr>changes = [c], versionId = 2\<rparr>;
       msg = \<lparr>msg_uid = Some ''A'', message = CodeSnippet event, timestamp = None\<rparr>
   in msg_uid msg = Some ''A'' \<and> message msg = CodeSnippet event
      \<and> getModel s = Some \<lparr>content = ''hello'', getVersionId = 1\<rparr> \<and> 1 < versionId event
      \<and> channel s \<and> contentSubscription s
      \<and> codeSnippets (sent (receiver msg s)) = [event]
      \<and> codeSnippets (sent (receiver msg (dispose s))) = []"
proof -
  let ?s = "contentManagerOn (linePage ''hello'' 1) True"
  let ?c = "\<lparr>change_range = Range 1 1 1 1, rangeOffset = 0, rangeLength = 0, change_text = ''hi''\<rparr>"
  let ?event = "\<lparr>changes = [?c], versionId = 2\<rparr>"
  let ?msg = "\<lparr>msg_uid = Some ''A'', message = CodeSnippet ?event, timestamp = None\<rparr>"
  note page = contentManagerOn_eq linePage_def editorPage_def dispose_def
  note buffer = contentChange_def rebuiltRange_def dropsChange_def Range_def
    getStartPosition_def getEndPosition_def line_getOffsetAt_def line_dropsEdit_def
  have m: "getModel ?s = Some \<lparr>content = ''hello'', getVersionId = 1\<rparr>"
    "getModel (dispose ?s) = Some \<lparr>content = ''hello'', getVersionId = 1\<rparr>"
    by (simp_all add: page)
  have "codeSnippets (sent (receiver ?msg ?s)) = [?event]"
    using remote_edit_is_echoed [of ?msg "''A''" ?event ?s, OF _ _ m(1)]
    by (simp add: page buffer)
  moreover have "codeSnippets (sent (receiver ?msg (dispose ?s))) = []"
    using remote_edit_is_echoed [of ?msg "''A''" ?event "dispose ?s", OF _ _ m(2)]
    by (simp add: page buffer)
  moreover have "channel ?s" "contentSubscription ?s"
    by (simp_all add: page)
  ultimately show ?thesis
    unfolding Let_def using m(1) by simp
qed

text \<open>
  The claim as stated fails: user A's edit of version 1, received on a page at version
  0, is applied, and a \<^verbatim>\<open>CodeSnippet\<close> message with the very same event is then among
  the messages sent on the channel.
\<close>

theorem remote_edit_echo_counterexample:
  "let s = contentManagerOn (linePage ''hello'' 0) True;
       c = \<lparr>change_range = Range 1 1 1 1, rangeOffset = 0, rangeLength = 0, change_text = ''hi''\<rparr>;
       event = \<lparr>changes = [c], versionId = 1\<rparr>;
       msg = \<lparr>msg_uid = Some ''A'', message = CodeSnippet event, timestamp = None\<rparr>
   in sent s = []
      \<and> getModel (receiver msg s) = Some \<lparr>content = ''hihello'', getVersionId = 1\<rparr>
      \<and> CodeSnippet event \<in> set (sent (receiver msg s))"
proof -
  let ?s = "contentManagerOn (linePage ''hello'' 0) True"
  let ?c = "\<lparr>change_range = Range 1 1 1 1, rangeOffset = 0, rangeLength = 0, change_text = ''hi''\<rparr>"
  let ?event = "\<lparr>changes = [?c], versionId = 1\<rparr>"
  let ?msg = "\<lparr>msg_uid = Some ''A'', message = CodeSnippet ?event, timestamp = None\<rparr>"
  note page = contentManagerOn_eq linePage_def editorPage_def
  note buffer = contentChange_def rebuiltRange_def dropsChange_def modelAfterChange_def
    applyChange_def Range_def getStartPosition_def getEndPosition_def line_getOffsetAt_def
    line_dropsEdit_def line_applyEdit_def
  have m: "getModel ?s = Some \<lparr>content = ''hello'', getVersionId = 0\<rparr>"
    by (simp add: page)
  have "sent ?s = []"
    by (simp add: page)
  moreover have "getModel (receiver ?msg ?s) = Some \<lparr>content = ''hihello'', getVersionId = 1\<rparr>"
    using receiver_model [of ?msg "''A''" ?event ?s, OF _ _ m]
    by (simp add: page buffer)
  moreover have "codeSnippets (sent (receiver ?msg ?s)) = [?event]"
    using receiver_codeSnippets [of ?msg "''A''" ?event ?s, OF _ _ m]
    by (simp add: page buffer)
  then have "CodeSnippet ?event \<in> set (sent (receiver ?msg ?s))"
    by (simp add: codeSnippets_mem)
  ultimately show ?thesis
    unfolding Let_def by simp
qed

section \<open>Edits with increasing versions\<close>










text \<open>One message with one change, which the editor does not drop, and the next version.\<close>

lemma receiver_single:
  assumes "getModel s = Some \<lparr>content = d, getVersionId = v\<rparr>" "msg_uid m = Some u"
    "message m = CodeSnippet e" "versionId e = v + 1" "changes e = [c]"
  shows "receiver m s = updateContent_change u (addOverlays (remoteUser u) s) c"
  using assms by (simp add: receiver_def updateContent_def Let_def addOverlays_frame)

lemma receiver_single_model:
  assumes "getModel s = Some \<lparr>content = d, getVersionId = v\<rparr>" "msg_uid m = Some u"
    "message m = CodeSnippet e" "versionId e = v + 1" "changes e = [c]"
    "\<not> dropsChange s d c"
  shows "getModel (receiver m s) = Some \<lparr>content = applyChange s d c, getVersionId = v + 1\<rparr>"
  using receiver_model [OF assms(2,3,1)] assms(4,5,6)
  by (simp add: modelAfterChange_def)

lemma addOverlays_cursor:
  assumes "page_ok s" "cursorManager s"
  shows "\<exists>r. cursorWidgets (addOverlays user s) (uid user) = Some r
    \<and> r < length (cursorHeap (addOverlays user s))"
proof -
  let ?s1 = "snd (addCursor user s)"
  have 1: "cursorWidgets ?s1 (uid user) = Some (fst (addCursor user s))"
    "fst (addCursor user s) < length (cursorHeap ?s1)"
    using addCursor_registered [of s user] assms(1) by (simp_all add: page_ok_def)
  have 2: "cursorWidgets (addOverlays user s) = cursorWidgets ?s1"
    "cursorHeap (addOverlays user s) = cursorHeap ?s1"
    using assms(2)
    by (simp_all add: addOverlays_def Let_def addSelection_def new_RemoteSelection_def
        split: option.splits)
  show ?thesis using 1 2 by simp
qed

lemma cw_setPosition_position:
  "r < length (cursorHeap s) \<Longrightarrow>
   cw_position (cursorHeap (cw_setPosition pos r s) ! r) = Some pos
   \<and> cursorWidgets (cw_setPosition pos r s) = cursorWidgets s"
  by (simp add: cw_setPosition_def cw_updatePosition_def layoutContentWidget_def cw_update_def
      setTimeout_def Let_def)

lemma receiver_single_cursor:
  assumes "getModel s = Some \<lparr>content = d, getVersionId = v\<rparr>" "msg_uid m = Some u"
    "message m = CodeSnippet e" "versionId e = v + 1" "changes e = [c]"
    "\<not> dropsChange s d c" "page_ok s" "cursorManager s"
  shows "cursorPositionOf u (receiver m s)
    = Some (getPositionAt s (applyChange s d c) (rangeOffset c + int (length (change_text c))))"
proof -
  let ?t = "addOverlays (remoteUser u) s"
  let ?s1 = "executeEdits u (rebuiltRange c) (change_text c) ?t"
  have m0: "getModel ?t = Some \<lparr>content = d, getVersionId = v\<rparr>"
    using assms(1) by (simp add: addOverlays_frame)
  have m1: "getModel ?s1 = Some \<lparr>content = applyChange s d c, getVersionId = v + 1\<rparr>"
    using m0 assms(6)
    by (simp add: executeEdits_model applyChange_def dropsChange_def addOverlays_frame2)
  obtain r where r: "cursorWidgets ?t u = Some r" "r < length (cursorHeap ?t)"
    using addOverlays_cursor [OF assms(7,8), of "remoteUser u"] by (auto simp: remoteUser_def)
  then have r1: "cursorWidgets ?s1 u = Some r" "r < length (cursorHeap ?s1)"
    by (simp_all add: executeEdits_frame)
  have cm: "cursorManager ?s1"
    using assms(8) by (simp add: executeEdits_frame addOverlays_frame2)
  have "receiver m s
      = setCursorPosition u
          (getPositionAt s (applyChange s d c) (rangeOffset c + int (length (change_text c)))) ?s1"
    unfolding receiver_single [OF assms(1-5)]
    using m1 cm
    by (simp add: updateContent_change_def Let_def rebuiltRange_def executeEdits_frame
        addOverlays_frame2)
  then show ?thesis
    using r1 cw_setPosition_position [OF r1(2)]
    by (simp add: cursorPositionOf_def setCursorPosition_def)
qed





text \<open>
  The two conditions on the change matter. An edit that changes nothing is dropped by
  the editor, so its message does not advance the version. And the cursor widget goes
  to \<^verbatim>\<open>rangeOffset + text.length\<close>, whatever the range is: for \<open>hi\<close> inserted at
  column 1 of \<open>hello\<close> with a \<^verbatim>\<open>rangeOffset\<close> of 3, it goes to column 6 and not behind
  the inserted text, which ends before column 3.
\<close>

lemma empty_change_keeps_version:
  "let s = contentManagerOn (linePage ''hello'' 0) True;
       c = \<lparr>change_range = Range 1 1 1 1, rangeOffset = 0, rangeLength = 0, change_text = []\<rparr>;
       m = \<lparr>msg_uid = Some ''A'', message = CodeSnippet \<lparr>changes = [c], versionId = 1\<rparr>,
            timestamp = None\<rparr>
   in getModel (receiveAll [m] s) = Some \<lparr>content = ''hello'', getVersionId = 0\<rparr>"
proof -
  let ?s = "contentManagerOn (linePage ''hello'' 0) True"
  let ?c = "\<lparr>change_range = Range 1 1 1 1, rangeOffset = 0, rangeLength = 0, change_text = []\<rparr>"
  let ?e = "\<lparr>changes = [?c], versionId = 1\<rparr>"
  let ?m = "\<lparr>msg_uid = Some ''A'', message = CodeSnippet ?e, timestamp = None\<rparr>"
  have m: "getModel ?s = Some \<lparr>content = ''hello'', getVersionId = 0\<rparr>"
    and fs: "dropsEdit ?s = line_dropsEdit"
    by (simp_all add: contentManagerOn_eq linePage_def editorPage_def)
  have "getModel (receiver ?m ?s) = Some \<lparr>content = ''hello'', getVersionId = 0\<rparr>"
    using receiver_model [of ?m "''A''" ?e ?s, OF _ _ m]
    by (simp add: fs modelAfterChange_def dropsChange_def rebuiltRange_def Range_def
        getStartPosition_def getEndPosition_def line_getOffsetAt_def line_dropsEdit_def)
  then show ?thesis
    unfolding Let_def by (simp add: receiveAll_def)
qed

lemma misplaced_rangeOffset_cursor:
  "let s = contentManagerOn (linePage ''hello'' 0) True;
       c = \<lparr>change_range = Range 1 1 1 1, rangeOffset = 3, rangeLength = 0, change_text = ''hi''\<rparr>;
       m = \<lparr>msg_uid = Some ''A'', message = CodeSnippet \<lparr>changes = [c], versionId = 1\<rparr>,
            timestamp = None\<rparr>
   in getModel (receiveAll [m] s) = Some \<lparr>content = ''hihello'', getVersionId = 1\<rparr>
      \<and> cursorPositionOf ''A'' (receiveAll [m] s) = Some \<lparr>lineNumber = 1, column = 6\<rparr>"
proof -
  let ?s = "contentManagerOn (linePage ''hello'' 0) True"
  let ?c = "\<lparr>change_range = Range 1 1 1 1, rangeOffset = 3, rangeLength = 0, change_text = ''hi''\<rparr>"
  let ?e = "\<lparr>changes = [?c], versionId = 1\<rparr>"
  let ?m = "\<lparr>msg_uid = Some ''A'', message = CodeSnippet ?e, timestamp = None\<rparr>"
  note buffer = applyChange_def dropsChange_def rebuiltRange_def Range_def getStartPosition_def
    getEndPosition_def line_applyEdit_def line_getPositionAt_def line_getOffsetAt_def
    line_dropsEdit_def
  have m: "getModel ?s = Some \<lparr>content = ''hello'', getVersionId = 0\<rparr>"
    and cm: "cursorManager ?s"
    and fs: "applyEdit ?s = line_applyEdit" "getPositionAt ?s = line_getPositionAt"
      "dropsEdit ?s = line_dropsEdit"
    by (simp_all add: contentManagerOn_eq linePage_def editorPage_def)
  have ok: "page_ok ?s"
    by (rule initial_page_ok)
      (simp add: initial_def contentManagerOn_eq linePage_def editorPage_def)
  have d: "\<not> dropsChange ?s ''hello'' ?c"
    by (simp add: fs buffer)
  have "getModel (receiver ?m ?s) = Some \<lparr>content = ''hihello'', getVersionId = 1\<rparr>"
    using receiver_single_model [of ?s "''hello''" 0 ?m "''A''" ?e ?c, OF m _ _ _ _ d]
    by (simp add: fs buffer)
  moreover have "cursorPositionOf ''A'' (receiver ?m ?s) = Some \<lparr>lineNumber = 1, column = 6\<rparr>"
    using receiver_single_cursor [of ?s "''hello''" 0 ?m "''A''" ?e ?c, OF m _ _ _ _ d ok cm]
    by (simp add: fs buffer)
  ultimately show ?thesis
    unfolding Let_def by (simp add: receiveAll_def)
qed




end
